theory Spec2Isabelle
  imports Complex_Main "HOL-Library.AList" "HOL-Library.Word"
    "HOL-Library.Char_ord" "HOL-Library.List_Lexorder"
begin

section \<open>Python values\<close>

text \<open>
  Python strings are modelled as \<^typ>\<open>string\<close>, a \<^typ>\<open>char\<close> standing for a code point
  below 256 (ASCII and Latin-1, which covers every literal of the sources). Python floats
  are idealised as rationals: no claim below depends on rounding. A Python \<open>dict\<close> with
  string keys is an association list in insertion order whose keys are distinct;
  \<open>d[k] = v\<close> is \<^const>\<open>AList.update\<close> and \<open>len(d)\<close> is \<^const>\<open>length\<close>. Values of
  type \<open>Any\<close> are JSON values. Calls of \<open>logger\<close> have no effect on the modelled state
  and are left out.
\<close>

type_synonym byte = "8 word"

datatype json =
    JNull
  | JBool bool
  | JInt int
  | JFloat rat
  | JString string
  | JArray "json list"
  | JObject "(string \<times> json) list"

type_synonym dict = "(string \<times> json) list"

text \<open>An exception of class \<open>Exception\<close>: its class name and \<open>str(e)\<close>.\<close>

datatype exn = Exception (exc_class: string) (str_e: string)

subsection \<open>String methods\<close>

text \<open>\<open>str.isspace\<close> on one code point below 256.\<close>

definition isspace :: "char \<Rightarrow> bool" where
  "isspace c = ((of_char c :: nat) \<in> {9, 10, 11, 12, 13, 28, 29, 30, 31, 32, 133, 160})"

definition lstrip :: "string \<Rightarrow> string" where
  "lstrip s = dropWhile isspace s"

definition rstrip :: "string \<Rightarrow> string" where
  "rstrip s = rev (dropWhile isspace (rev s))"

definition strip :: "string \<Rightarrow> string" where
  "strip s = rstrip (lstrip s)"

definition startswith :: "'a list \<Rightarrow> 'a list \<Rightarrow> bool" where
  "startswith s p = (take (length p) s = p)"

definition endswith :: "'a list \<Rightarrow> 'a list \<Rightarrow> bool" where
  "endswith s p = (length p \<le> length s \<and> drop (length s - length p) s = p)"

text \<open>\<open>str.lower\<close> on code points below 256: A-Z, and the Latin-1 capitals except U+00D7.\<close>

definition lower_char :: "char \<Rightarrow> char" where
  "lower_char c =
     (let n = (of_char c :: nat)
      in if (65 \<le> n \<and> n \<le> 90) \<or> (192 \<le> n \<and> n \<le> 222 \<and> n \<noteq> 215)
         then char_of (n + 32) else c)"

definition lower :: "string \<Rightarrow> string" where
  "lower s = map lower_char s"

text \<open>\<open>sep.join(xs)\<close>.\<close>

fun join :: "string \<Rightarrow> string list \<Rightarrow> string" where
  "join sep [] = []"
| "join sep [x] = x"
| "join sep (x # y # ys) = x @ sep @ join sep (y # ys)"

text \<open>\<open>str(n)\<close> for a natural number.\<close>

fun str_nat :: "nat \<Rightarrow> string" where
  "str_nat n =
     (if n < 10 then [''0123456789'' ! n]
      else str_nat (n div 10) @ [''0123456789'' ! (n mod 10)])"

declare str_nat.simps [simp del]


section \<open>models/state.py\<close>

record ProcessingMetrics =
  tokens_used :: int
  processing_time :: rat
  cost_estimate :: rat
  llm_model :: string

record DocumentInfo =
  document_input :: dict
  file_path :: string
  filename :: string
  file_size :: int

record ProcessingData =
  raw_text :: "string option"
  ocr_confidence :: rat

record ProcessingControl =
  processing_stage :: string
  status :: string

record LoggingData =
  messages :: "string list"
  errors :: "string list"
  warnings :: "string list"
  debug_info :: dict

record PipelineState =
  document_info :: DocumentInfo
  processing_data :: ProcessingData
  processing_control :: ProcessingControl
  metrics :: ProcessingMetrics
  logging :: LoggingData
  extracted_data :: dict

text \<open>The field defaults of the pydantic models.\<close>

definition ProcessingMetrics_default :: ProcessingMetrics where
  "ProcessingMetrics_default =
     \<lparr>tokens_used = 0, processing_time = 0, cost_estimate = 0, llm_model = ''gpt-4o-mini''\<rparr>"

definition ProcessingData_default :: ProcessingData where
  "ProcessingData_default = \<lparr>raw_text = None, ocr_confidence = 0\<rparr>"

definition ProcessingControl_default :: ProcessingControl where
  "ProcessingControl_default = \<lparr>processing_stage = ''ingestion'', status = ''PROCESSING''\<rparr>"

definition LoggingData_default :: LoggingData where
  "LoggingData_default = \<lparr>messages = [], errors = [], warnings = [], debug_info = []\<rparr>"

section \<open>The world outside the program\<close>

text \<open>
  The mutable surroundings of a run: how often the clock has been read, the files on
  disk, how often each collaborator has been called, and how many UUIDs were drawn.
\<close>

record world =
  clock_reads :: nat
  files :: "string \<rightharpoonup> byte list"
  vision_calls :: nat
  llm_calls :: nat
  uuid_draws :: nat

subsection \<open>models/settings.py\<close>

text \<open>The settings the modelled code reads.\<close>

record Settings =
  openai_api_key :: string
  max_image_size_mb :: nat
  temp_dir :: string
  llm_model :: string
  llm_temperature :: rat
  openai_pricing :: "(string \<times> (string \<times> rat) list) list"

definition openai_pricing_default :: "(string \<times> (string \<times> rat) list) list" where
  "openai_pricing_default =
     [(''gpt-4o'', [(''input'', 25 / 10000), (''output'', 1 / 100)]),
      (''gpt-4o-mini'', [(''input'', 15 / 100000), (''output'', 6 / 10000)]),
      (''gpt-3.5-turbo'', [(''input'', 1 / 1000), (''output'', 2 / 1000)])]"

subsection \<open>Collaborators\<close>

text \<open>
  The answer of the Vision API: \<open>response.error.message\<close>, and
  \<open>response.full_text_annotation\<close> with its text and the confidence of each word
  (pages, blocks, paragraphs and words flattened in reading order).
\<close>

record annotation =
  annotation_text :: string
  word_confidences :: "rat list"

record vision_response =
  error_message :: string
  full_text_annotation :: "annotation option"

text \<open>The request sent to, and the answer of, \<open>client.chat.completions.create\<close>.\<close>

record chat_request =
  req_model :: string
  req_system :: string
  req_user :: string
  req_max_tokens :: nat
  req_temperature :: rat
  req_top_p :: rat

record chat_response =
  usage_total_tokens :: "int option"
  choices_content :: "string option list"

text \<open>
  Everything the program takes from outside: configuration, the process environment,
  the clock, and the library and service calls, each as the function of its arguments that
  the run observes. A call that raises returns \<open>Inl\<close>.
\<close>

record env =
  settings :: Settings
  VISION_AVAILABLE :: bool
  PIL_AVAILABLE :: bool
  GOOGLE_APPLICATION_CREDENTIALS :: "string option"
  strftime_HMS :: "nat \<Rightarrow> string"
  isoformat :: "nat \<Rightarrow> string"
  time_time :: "nat \<Rightarrow> rat"
  format_float :: "nat \<Rightarrow> rat \<Rightarrow> string"
  round_float :: "rat \<Rightarrow> nat \<Rightarrow> rat"
  uuid4 :: "nat \<Rightarrow> string"
  uuid4_hex :: "nat \<Rightarrow> string"
  document_text_detection :: "byte list \<Rightarrow> exn + vision_response"
  OpenAI_init :: "exn option"
  chat_completions_create :: "chat_request \<Rightarrow> exn + chat_response"
  json_loads :: "string \<Rightarrow> exn + json"

text \<open>\<open>datetime.now().strftime("%H:%M:%S")\<close>, \<open>datetime.now().isoformat()\<close> and
  \<open>time.time()\<close>: one reading of the clock each.\<close>

definition now_strftime :: "env \<Rightarrow> world \<Rightarrow> string \<times> world" where
  "now_strftime e w = (strftime_HMS e (clock_reads w), w\<lparr>clock_reads := Suc (clock_reads w)\<rparr>)"

definition now_isoformat :: "env \<Rightarrow> world \<Rightarrow> string \<times> world" where
  "now_isoformat e w = (isoformat e (clock_reads w), w\<lparr>clock_reads := Suc (clock_reads w)\<rparr>)"

definition read_time :: "env \<Rightarrow> world \<Rightarrow> rat \<times> world" where
  "read_time e w = (time_time e (clock_reads w), w\<lparr>clock_reads := Suc (clock_reads w)\<rparr>)"

section \<open>The methods of PipelineState\<close>

text \<open>
  A method mutates the state in place and returns it; the model takes the world and the
  state and returns both.
\<close>

fun add_message :: "env \<Rightarrow> string \<Rightarrow> world \<times> PipelineState \<Rightarrow> world \<times> PipelineState" where
  "add_message e message (w, st) =
     (let (timestamp, w') = now_strftime e w
      in (w', st\<lparr>logging := (logging st)
            \<lparr>messages := messages (logging st) @ [''['' @ timestamp @ ''] '' @ message]\<rparr>\<rparr>))"

fun update_stage :: "env \<Rightarrow> string \<Rightarrow> world \<times> PipelineState \<Rightarrow> world \<times> PipelineState" where
  "update_stage e stage (w, st) =
     add_message e (''Iniciando etapa: '' @ stage)
       (w, st\<lparr>processing_control := (processing_control st)\<lparr>processing_stage := stage\<rparr>\<rparr>)"

fun add_error :: "env \<Rightarrow> string \<Rightarrow> world \<times> PipelineState \<Rightarrow> world \<times> PipelineState" where
  "add_error e err (w, st) =
     (let (timestamp, w') = now_strftime e w
      in (w', st\<lparr>logging := (logging st)
                   \<lparr>errors := errors (logging st) @ [''['' @ timestamp @ ''] '' @ err]\<rparr>,
                 processing_control := (processing_control st)\<lparr>status := ''FAILED''\<rparr>\<rparr>))"

fun add_warning :: "env \<Rightarrow> string \<Rightarrow> world \<times> PipelineState \<Rightarrow> world \<times> PipelineState" where
  "add_warning e warning (w, st) =
     (let (timestamp, w') = now_strftime e w
      in (w', st\<lparr>logging := (logging st)
            \<lparr>warnings := warnings (logging st) @ [''['' @ timestamp @ ''] '' @ warning]\<rparr>\<rparr>))"

text \<open>\<open>update_metrics(tokens, time_delta)\<close>; the price is the literal of the source.\<close>

definition update_metrics :: "int \<Rightarrow> rat \<Rightarrow> PipelineState \<Rightarrow> PipelineState" where
  "update_metrics tokens time_delta st =
     (let input_cost = (of_int tokens / 1000) * (15 / 100000)
      in st\<lparr>metrics := (metrics st)
             \<lparr>tokens_used := tokens_used (metrics st) + tokens,
              processing_time := processing_time (metrics st) + time_delta,
              cost_estimate := cost_estimate (metrics st) + input_cost\<rparr>\<rparr>)"

section \<open>models/prompts.py\<close>

definition EXTRACTION_SYSTEM_PROMPT :: string where
  "EXTRACTION_SYSTEM_PROMPT =
     ''Eres un experto en analizar texto de licencias de conducir o DNIs''"

text \<open>
  The user template has the single field \<open>{cleaned_text}\<close>; the model is the template as
  a function of that field, which is what \<open>str.format\<close> computes.
\<close>

definition EXTRACTION_USER_PROMPT :: "string \<Rightarrow> string" where
  \<open>EXTRACTION_USER_PROMPT cleaned_text =
     ''Analiza el siguiente texto de una licencia o dni y extrae los datos solicitados:\<newline>'' @
     ''\<newline>'' @
     ''INSTRUCCIONES:\<newline>'' @
     ''1. Extrae SOLO la informaci'' @ [CHR 0xF3] @ ''n que est'' @ [CHR 0xE9] @ '' expl'' @ [CHR 0xED] @ ''citamente presente en el texto\<newline>'' @
     ''2. Si un campo no est'' @ [CHR 0xE1] @ '' presente, usa null o lo que se especifique\<newline>'' @
     ''3. Mant'' @ [CHR 0xE9] @ ''n formatos originales (no inventes ni normalices a menos que se diga lo contrario)\<newline>'' @
     ''4. Responde '' @ [CHR 0xDA] @ ''NICAMENTE en JSON v'' @ [CHR 0xE1] @ ''lido, sin explicaciones\<newline>'' @
     ''5. Si encuentras m'' @ [CHR 0xFA] @ ''ltiples valores para un campo, usa el m'' @ [CHR 0xE1] @ ''s espec'' @ [CHR 0xED] @ ''fico\<newline>'' @
     ''\<newline>'' @
     ''CAMPOS A EXTRAER:\<newline>'' @
     ''- apellido_paterno: Apellido paterno o primer apellido\<newline>'' @
     ''    - Debe estar en may'' @ [CHR 0xFA] @ ''sculas y sin abreviaciones\<newline>'' @
     ''    - Debe estar en la secci'' @ [CHR 0xF3] @ ''n de apellidos y es el primero \<newline>'' @
     ''- apellio_materno: Apellido materno o segundo apellido\<newline>'' @
     ''    - Debe estar en may'' @ [CHR 0xFA] @ ''sculas y sin abreviaciones\<newline>'' @
     ''    - Debe estar en la secci'' @ [CHR 0xF3] @ ''n de apellidos y es el segundo\<newline>'' @
     ''- nombres: Nombres completos\<newline>'' @
     ''    - Debe estar en may'' @ [CHR 0xFA] @ ''sculas y sin abreviaciones\<newline>'' @
     ''    - Debe estar en la secci'' @ [CHR 0xF3] @ ''n de nombres y puede incluir m'' @ [CHR 0xFA] @ ''ltiples nombres\<newline>'' @
     ''- fecha_emision: Fecha de emisi'' @ [CHR 0xF3] @ ''n    \<newline>'' @
     ''    - Formato: "DD/MM/AAAA"\<newline>'' @
     ''    - Tambi'' @ [CHR 0xE9] @ ''n puede llamarse fecha de expedici'' @ [CHR 0xF3] @ ''n o emisi'' @ [CHR 0xF3] @ ''n\<newline>'' @
     ''- fecha_caducidad: Fecha de caducidad\<newline>'' @
     ''    - Formato: "DD/MM/AAAA"\<newline>'' @
     ''    - Tambi'' @ [CHR 0xE9] @ ''n puede llamarse fecha de vencimiento, expiraci'' @ [CHR 0xF3] @ ''n o revalidaci'' @ [CHR 0xF3] @ ''n\<newline>'' @
     ''- tipo_documento: Tipo de documento\<newline>'' @
     ''    - Debe ser uno de: "DNI", "LICENCIA DE CONDUCIR", "PASAPORTE", "CARNET DE EXTRANJER'' @ [CHR 0xCD] @ ''A"\<newline>'' @
     ''    - Si no est'' @ [CHR 0xE1] @ '' claro, usa null\<newline>'' @
     ''- numero_documento: N'' @ [CHR 0xFA] @ ''mero del documento\<newline>'' @
     ''    - Debe ser el n'' @ [CHR 0xFA] @ ''mero completo, sin espacios ni guiones, en los DNI suele estar despu'' @ [CHR 0xE9] @ ''s de la palabra PER\<newline>'' @
     ''    - Si es DNI tiene 8 digitos\<newline>'' @
     ''    - Si no est'' @ [CHR 0xE1] @ '' claro, usa null\<newline>'' @
     ''\<newline>'' @
     ''TEXTO DEL DOCUMENTO DE IDENTIDAD:\<newline>'' @
     cleaned_text @
     ''\<newline>'' @
     ''\<newline>'' @
     ''Responde en formato JSON:''\<close>

text \<open>The seven fields the prompt asks for, under the names the prompt gives them.\<close>

definition recognized_fields :: "string set" where
  "recognized_fields =
     {''apellido_paterno'', ''apellio_materno'', ''nombres'', ''fecha_emision'',
      ''fecha_caducidad'', ''tipo_documento'', ''numero_documento''}"

definition generate_extraction_prompts :: "PipelineState \<Rightarrow> exn + string \<times> string" where
  "generate_extraction_prompts state =
     (case raw_text (processing_data state) of
        None \<Rightarrow> Inl (Exception ''ValueError''
                 (''No hay texto extra'' @ [CHR 0xED] @ ''do disponible en el estado''))
      | Some t \<Rightarrow>
          if t = [] then Inl (Exception ''ValueError''
                 (''No hay texto extra'' @ [CHR 0xED] @ ''do disponible en el estado''))
          else Inr (EXTRACTION_SYSTEM_PROMPT, EXTRACTION_USER_PROMPT t))"

section \<open>nodes/llm.py\<close>

text \<open>The two statements under \<open># Limpiar formato JSON\<close>.\<close>

definition clean_json_format :: "string \<Rightarrow> string" where
  "clean_json_format content =
     (let content1 = (if startswith content ''```json'' then drop 7 content else content)
      in if endswith content1 ''```'' then take (length content1 - 3) content1 else content1)"

text \<open>The statements of the \<open>try\<close> block after the mapping has been parsed and checked.\<close>

definition llm_success ::
  "env \<Rightarrow> int \<Rightarrow> string \<Rightarrow> string \<Rightarrow> string \<Rightarrow> dict \<Rightarrow> world \<times> PipelineState
     \<Rightarrow> world \<times> PipelineState" where
  "llm_success e tokens content system_prompt user_prompt result ws =
     (case ws of (w, state) \<Rightarrow>
        let state1 = state\<lparr>extracted_data := result\<rparr>;
            state2 = update_metrics tokens 0 state1;
            state3 = state2\<lparr>processing_control := (processing_control state2)\<lparr>status := ''COMPLETED''\<rparr>\<rparr>;
            llm_stats = JObject
              [(''model_used'', JString (Settings.llm_model (settings e))),
               (''tokens_used'', JInt tokens),
               (''temperature'', JFloat (llm_temperature (settings e))),
               (''max_tokens'', JInt 1500),
               (''top_p'', JFloat (9 / 10)),
               (''fields_extracted'', JInt (int (length result))),
               (''response_length'', JInt (int (length content))),
               (''extraction_successful'', JBool True),
               (''prompt_system_length'', JInt (int (length system_prompt))),
               (''prompt_user_length'', JInt (int (length user_prompt)))];
            state4 = state3\<lparr>logging := (logging state3)
              \<lparr>debug_info := AList.update ''llm_stats'' llm_stats (debug_info (logging state3))\<rparr>\<rparr>
        in add_message e
             (''Extracci'' @ [CHR 0xF3] @ ''n completada: '' @ str_nat (length result)
                @ '' campos extra'' @ [CHR 0xED] @ ''dos'')
             (w, state4))"

text \<open>
  The second \<open>try\<close> block: \<open>Inl\<close> is the exception that leaves it, with the world at that
  moment (the state has not been written yet at any statement that can raise).
\<close>

definition llm_try :: "env \<Rightarrow> world \<times> PipelineState \<Rightarrow> exn \<times> world + world \<times> PipelineState" where
  "llm_try e ws =
     (case ws of (w, state) \<Rightarrow>
       (case generate_extraction_prompts state of
          Inl ex \<Rightarrow> Inl (ex, w)
        | Inr (system_prompt, user_prompt) \<Rightarrow>
           (let w1 = w\<lparr>llm_calls := Suc (llm_calls w)\<rparr>;
                request = \<lparr>req_model = Settings.llm_model (settings e),
                           req_system = system_prompt, req_user = user_prompt,
                           req_max_tokens = 1500,
                           req_temperature = llm_temperature (settings e),
                           req_top_p = 9 / 10\<rparr>
            in case chat_completions_create e request of
                 Inl ex \<Rightarrow> Inl (ex, w1)
               | Inr response \<Rightarrow>
                  (let tokens = (case usage_total_tokens response of Some n \<Rightarrow> n | None \<Rightarrow> 0)
                   in case choices_content response of
                        [] \<Rightarrow> Inl (Exception ''IndexError'' ''list index out of range'', w1)
                      | None # _ \<Rightarrow>
                          Inl (Exception ''AttributeError''
                                 ([CHR 0x27] @ ''NoneType'' @ [CHR 0x27] @ '' object has no attribute ''
                                    @ [CHR 0x27] @ ''strip'' @ [CHR 0x27]), w1)
                      | Some raw # _ \<Rightarrow>
                         (let content = clean_json_format (strip raw)
                          in case json_loads e (strip content) of
                               Inl ex \<Rightarrow> Inl (ex, w1)
                             | Inr (JObject result) \<Rightarrow>
                                 Inr (llm_success e tokens content system_prompt user_prompt
                                        result (w1, state))
                             | Inr _ \<Rightarrow>
                                 Inl (Exception ''ValueError''
                                   (''Respuesta de OpenAI no es un objeto JSON v'' @ [CHR 0xE1]
                                      @ ''lido''), w1))))))"

definition llm_node :: "env \<Rightarrow> world \<times> PipelineState \<Rightarrow> world \<times> PipelineState" where
  "llm_node e ws =
     (case ws of (w, state) \<Rightarrow>
        if status (processing_control state) = ''FAILED'' then (w, state)
        else
          (let ws1 = update_stage e ''llm_processing'' (w, state)
           in case OpenAI_init e of
                Some ex \<Rightarrow>
                  add_error e (''Error inicializando cliente OpenAI: '' @ str_e ex) ws1
              | None \<Rightarrow>
                 (case llm_try e ws1 of
                    Inr ws2 \<Rightarrow> ws2
                  | Inl (ex, w2) \<Rightarrow>
                      add_error e (''Error en extracci'' @ [CHR 0xF3] @ ''n LLM: '' @ str_e ex)
                        (w2, snd ws1))))"

section \<open>pathlib and the file system\<close>

text \<open>
  Paths are the strings the program builds itself (normalised, with \<open>/\<close> as separator).
  \<open>Path.name\<close> is the last component and \<open>Path.suffix\<close> the part of the name from its
  last dot, unless that dot is the first or the last character of the name.
\<close>

definition path_name :: "string \<Rightarrow> string" where
  "path_name p = rev (takeWhile (\<lambda>c. c \<noteq> CHR ''/'') (rev p))"

definition path_suffix :: "string \<Rightarrow> string" where
  "path_suffix p =
     (let name = path_name p;
          ext = rev (takeWhile (\<lambda>c. c \<noteq> CHR ''.'') (rev name))
      in if CHR ''.'' \<in> set name \<and> ext \<noteq> [] \<and> length ext + 1 < length name
         then ''.'' @ ext else [])"

definition path_exists :: "world \<Rightarrow> string \<Rightarrow> bool" where
  "path_exists w p = (files w p \<noteq> None)"

definition st_size :: "world \<Rightarrow> string \<Rightarrow> nat" where
  "st_size w p = (case files w p of None \<Rightarrow> 0 | Some bs \<Rightarrow> length bs)"

section \<open>utils/image_utils.py\<close>

definition SUPPORTED_IMAGE_FORMATS :: "string list" where
  "SUPPORTED_IMAGE_FORMATS = [''.jpg'', ''.jpeg'', ''.png'', ''.tiff'', ''.tif'', ''.bmp'']"

definition is_image_file :: "string \<Rightarrow> bool" where
  "is_image_file p = (lower (path_suffix p) \<in> set SUPPORTED_IMAGE_FORMATS)"

definition validate_image_dependencies :: "env \<Rightarrow> exn + unit" where
  "validate_image_dependencies e =
     (if \<not> PIL_AVAILABLE e
      then Inl (Exception ''ImportError''
             (''Pillow no est'' @ [CHR 0xE1] @ '' instalado. Instalar con: pip install Pillow''))
      else Inr ())"

section \<open>utils/ocr_utils.py\<close>

definition validate_tesseract_installation :: "env \<Rightarrow> bool \<times> string" where
  "validate_tesseract_installation e =
     (if \<not> VISION_AVAILABLE e
      then (False, ''Google Vision API no disponible. Instalar: pip install google-cloud-vision'')
      else case GOOGLE_APPLICATION_CREDENTIALS e of
             None \<Rightarrow> (False, ''Variable GOOGLE_APPLICATION_CREDENTIALS no configurada'')
           | Some credentials_path \<Rightarrow>
               if credentials_path = []
               then (False, ''Variable GOOGLE_APPLICATION_CREDENTIALS no configurada'')
               else (True, ''Google Vision API disponible''))"

definition read_image_bytes :: "world \<Rightarrow> string \<Rightarrow> exn + byte list" where
  "read_image_bytes w image_path =
     (case files w image_path of
        None \<Rightarrow> Inl (Exception ''FileNotFoundError'' (''Imagen no encontrada: '' @ image_path))
      | Some bs \<Rightarrow> Inr bs)"

text \<open>
  \<open>_call_vision_text_detection\<close> with \<open>document=True\<close>. Creating the client and the
  request with its retries are the collaborator \<^const>\<open>document_text_detection\<close>.
\<close>

definition call_vision_text_detection ::
  "env \<Rightarrow> byte list \<Rightarrow> world \<Rightarrow> (exn + vision_response) \<times> world" where
  "call_vision_text_detection e image_bytes w =
     (if \<not> VISION_AVAILABLE e
      then (Inl (Exception ''ImportError''
              (''google-cloud-vision no est'' @ [CHR 0xE1]
                 @ '' instalado. Instalar con: pip install google-cloud-vision'')), w)
      else
        (let w1 = w\<lparr>vision_calls := Suc (vision_calls w)\<rparr>
         in case document_text_detection e image_bytes of
              Inl ex \<Rightarrow> (Inl ex, w1)
            | Inr response \<Rightarrow>
                if error_message response \<noteq> []
                then (Inl (Exception ''RuntimeError''
                        (''Vision API error: '' @ error_message response)), w1)
                else (Inr response, w1)))"

text \<open>The text-only entry point that the image node calls.\<close>

definition extract_text_with_google_vision ::
  "env \<Rightarrow> string \<Rightarrow> world \<Rightarrow> (exn + string) \<times> world" where
  "extract_text_with_google_vision e image_path w =
     (case read_image_bytes w image_path of
        Inl ex \<Rightarrow> (Inl ex, w)
      | Inr image_bytes \<Rightarrow>
         (case call_vision_text_detection e image_bytes w of
            (Inl ex, w1) \<Rightarrow> (Inl ex, w1)
          | (Inr response, w1) \<Rightarrow>
             (case full_text_annotation response of
                None \<Rightarrow> (Inr [], w1)
              | Some a \<Rightarrow> (Inr (annotation_text a), w1))))"

section \<open>nodes/image_processing.py\<close>

text \<open>The inner \<open>try\<close> block, entered once the file has been validated.\<close>

definition image_ocr_step ::
  "env \<Rightarrow> string \<Rightarrow> rat \<Rightarrow> rat \<Rightarrow> world \<times> PipelineState \<Rightarrow> world \<times> PipelineState" where
  "image_ocr_step e fp file_size_mb start_time ws =
     (case ws of (w, state) \<Rightarrow>
       (case extract_text_with_google_vision e fp w of
          (Inl ex, w1) \<Rightarrow>
            add_error e (''Error en Google Vision API: '' @ str_e ex) (w1, state)
        | (Inr text, w1) \<Rightarrow>
            if text = [] \<or> strip text = []
            then add_error e (''No se detect'' @ [CHR 0xF3] @ '' texto en la imagen'') (w1, state)
            else
              (let state1 = state\<lparr>processing_data :=
                              (processing_data state)\<lparr>raw_text := Some (strip text)\<rparr>\<rparr>;
                   (now, w2) = read_time e w1;
                   elapsed_time = now - start_time;
                   char_count = length text;
                   (w3, state2) = add_message e
                      (''Texto extra'' @ [CHR 0xED] @ ''do: '' @ str_nat char_count @ '' caracteres'')
                      (w2, state1);
                   stats = JObject
                     [(''file_size_mb'', JFloat file_size_mb),
                      (''processing_time_seconds'', JFloat elapsed_time),
                      (''characters_extracted'', JInt (int char_count)),
                      (''ocr_engine'', JString ''google_vision''),
                      (''file_extension'', JString (lower (path_suffix fp)))]
               in (w3, state2\<lparr>logging := (logging state2)
                     \<lparr>debug_info := AList.update ''image_processing_stats'' stats
                                      (debug_info (logging state2))\<rparr>\<rparr>))))"

text \<open>
  The node. The outer \<open>except Exception\<close> has no raising statement left to catch in this
  model: each call that can raise is handled at its own place.
\<close>

definition image_processing_node :: "env \<Rightarrow> world \<times> PipelineState \<Rightarrow> world \<times> PipelineState" where
  "image_processing_node e ws =
     (let (w1, state1) = update_stage e ''ImageProcessing'' ws;
          (start_time, w2) = read_time e w1;
          (vision_ok, vision_msg) = validate_tesseract_installation e
      in if \<not> vision_ok
         then add_error e (''Google Vision API no disponible: '' @ vision_msg) (w2, state1)
         else case validate_image_dependencies e of
           Inl ex \<Rightarrow>
             add_error e (''Dependencias de imagen faltantes: '' @ str_e ex) (w2, state1)
         | Inr _ \<Rightarrow>
            (let fp = file_path (document_info state1)
             in if \<not> path_exists w2 fp
                then add_error e (''Archivo no encontrado: '' @ fp) (w2, state1)
                else if \<not> is_image_file fp
                then add_error e
                       (''El archivo no es una imagen v'' @ [CHR 0xE1] @ ''lida: '' @ path_suffix fp)
                       (w2, state1)
                else
                  (let file_size_bytes = st_size w2 fp;
                       file_size_mb = (of_nat file_size_bytes :: rat) / (1024 * 1024);
                       max_size = max_image_size_mb (settings e)
                   in if file_size_mb > of_nat max_size
                      then add_error e
                             (''Imagen demasiado grande: '' @ format_float e 1 file_size_mb
                                @ ''MB > '' @ str_nat max_size @ ''MB'')
                             (w2, state1)
                      else image_ocr_step e fp file_size_mb start_time
                             (add_message e
                                (''Imagen v'' @ [CHR 0xE1] @ ''lida: ''
                                   @ format_float e 2 file_size_mb @ ''MB'')
                                (w2, state1)))))"

section \<open>pipeline.py\<close>

definition create_initial_state :: "string \<Rightarrow> string \<Rightarrow> PipelineState" where
  "create_initial_state fp fname =
     \<lparr>document_info = \<lparr>document_input = [], file_path = fp, filename = fname, file_size = 0\<rparr>,
      processing_data = ProcessingData_default,
      processing_control = ProcessingControl_default,
      metrics = ProcessingMetrics_default,
      logging = LoggingData_default,
      extracted_data = []\<rparr>"

text \<open>The compiled graph: entry point \<open>image_processing\<close>, then \<open>llm\<close>, then the end.\<close>

definition graph_ainvoke :: "env \<Rightarrow> world \<times> PipelineState \<Rightarrow> world \<times> PipelineState" where
  "graph_ainvoke e ws = llm_node e (image_processing_node e ws)"

text \<open>
  The two shapes of the dictionary \<open>Pipeline.process\<close> returns; a key a shape does not
  have is \<open>None\<close>.
\<close>

record error_details =
  ed_errors :: "string list"
  ed_warnings :: "string list"
  last_stage :: string

record process_result =
  res_status :: string
  res_processing_stage :: string
  res_error_details :: "error_details option"
  res_extracted_data :: "dict option"
  res_metrics :: ProcessingMetrics

text \<open>
  \<open>Pipeline.process\<close>. The final state is the pydantic object the nodes return. The
  \<open>except\<close> branch, which returns \<open>None\<close>, answers failures of the graph runtime, which
  the model does not have.
\<close>

definition Pipeline_process ::
  "env \<Rightarrow> string \<Rightarrow> string \<Rightarrow> world \<Rightarrow> (exn + process_result option) \<times> world" where
  "Pipeline_process e fp fname w =
     (let initial_state = create_initial_state fp fname;
          w1 = w\<lparr>uuid_draws := Suc (uuid_draws w)\<rparr>;
          (w2, final_state) = graph_ainvoke e (w1, initial_state);
          st = status (processing_control final_state);
          stage = processing_stage (processing_control final_state)
      in if st = ''FAILED''
         then (Inr (Some
                \<lparr>res_status = st, res_processing_stage = stage,
                 res_error_details = Some
                   \<lparr>ed_errors = errors (logging final_state),
                    ed_warnings = warnings (logging final_state),
                    last_stage = stage\<rparr>,
                 res_extracted_data = None,
                 res_metrics = metrics final_state\<rparr>), w2)
         else (Inr (Some
                \<lparr>res_status = (if st = [] then ''COMPLETED'' else st),
                 res_processing_stage = stage,
                 res_error_details = None,
                 res_extracted_data = Some (extracted_data final_state),
                 res_metrics = metrics final_state\<rparr>), w2))"

section \<open>utils/api_utils.py\<close>

datatype HTTPException = HTTPException (status_code: nat) (detail: string)

record UploadFile =
  upload_filename :: "string option"
  upload_content :: "byte list"

definition magic_bytes :: "(string \<times> byte list list) list" where
  "magic_bytes =
     [(''jpg'', [[0xff, 0xd8, 0xff]]),
      (''jpeg'', [[0xff, 0xd8, 0xff]]),
      (''png'', [[0x89, 0x50, 0x4e, 0x47]]),
      (''tiff'', [[0x49, 0x49, 0x2a, 0x00], [0x4d, 0x4d, 0x00, 0x2a]]),
      (''tif'', [[0x49, 0x49, 0x2a, 0x00], [0x4d, 0x4d, 0x00, 0x2a]]),
      (''bmp'', [[0x42, 0x4d]])]"

text \<open>\<open>filename.split('.')[-1]\<close>: what follows the last dot, the whole name without one.\<close>

definition split_last :: "string \<Rightarrow> string" where
  "split_last s = rev (takeWhile (\<lambda>c. c \<noteq> CHR ''.'') (rev s))"

definition is_valid_image_content :: "byte list \<Rightarrow> string \<Rightarrow> bool" where
  "is_valid_image_content content fname =
     (if content = [] then False
      else
        (let ext = (if CHR ''.'' \<in> set fname then lower (split_last fname) else [])
         in case map_of magic_bytes ext of
              Some sigs \<Rightarrow> list_ex (\<lambda>magic. startswith content magic) sigs
            | None \<Rightarrow> False))"

definition image_extensions :: "string list" where
  "image_extensions = [''.jpg'', ''.jpeg'', ''.png'', ''.tiff'', ''.tif'', ''.bmp'']"

definition validate_document :: "env \<Rightarrow> UploadFile \<Rightarrow> HTTPException + byte list" where
  "validate_document e file =
     (case upload_filename file of
        None \<Rightarrow> Inl (HTTPException 400 ''El archivo debe tener un nombre'')
      | Some fname \<Rightarrow>
          if fname = [] then Inl (HTTPException 400 ''El archivo debe tener un nombre'')
          else
            (let filename_lower = lower fname;
                 is_image = list_ex (\<lambda>ext. endswith filename_lower ext) image_extensions
             in if \<not> is_image
                then Inl (HTTPException 400
                       (''Solo se aceptan im'' @ [CHR 0xE1] @ ''genes. Formatos permitidos: ''
                          @ join '', '' image_extensions))
                else
                  (let file_content = upload_content file;
                       file_size_mb = (of_nat (length file_content) :: rat) / (1024 * 1024);
                       max_size = max_image_size_mb (settings e)
                   in if file_size_mb > of_nat max_size
                      then Inl (HTTPException 413
                             (''Imagen demasiado grande: '' @ format_float e 1 file_size_mb
                                @ ''MB. M'' @ [CHR 0xE1] @ ''ximo permitido: ''
                                @ str_nat max_size @ ''MB''))
                      else if \<not> is_valid_image_content file_content filename_lower
                      then Inl (HTTPException 400
                             (''El archivo no es una imagen v'' @ [CHR 0xE1] @ ''lida''))
                      else Inr file_content)))"

text \<open>
  \<open>save_temp_file\<close>: one UUID is drawn for the name and the content is written; the
  write itself does not fail in this model.
\<close>

definition save_temp_file :: "env \<Rightarrow> byte list \<Rightarrow> string \<Rightarrow> string \<Rightarrow> world \<Rightarrow> string \<times> world" where
  "save_temp_file e file_content fname dir w =
     (let temp_filename = ''upload_'' @ uuid4_hex e (uuid_draws w) @ ''_'' @ fname;
          temp_file_path = dir @ ''/'' @ temp_filename
      in (temp_file_path,
          w\<lparr>uuid_draws := Suc (uuid_draws w),
            files := (files w)(temp_file_path \<mapsto> file_content)\<rparr>))"

section \<open>main.py\<close>

definition PENDING :: string where "PENDING = ''PENDING''"
definition PROCESSING :: string where "PROCESSING = ''PROCESSING''"
definition COMPLETED :: string where "COMPLETED = ''COMPLETED''"
definition FAILED :: string where "FAILED = ''FAILED''"

text \<open>The result stored for a completed job.\<close>

record enhanced_result =
  enh_extracted_data :: dict
  enh_processing_metrics :: dict
  raw_result :: process_result

text \<open>
  A job record is a dictionary: the six keys written at submission, and the keys the
  background task adds later, \<open>None\<close> while the key is missing. The stored
  \<open>error_details\<close> is \<open>Some None\<close> for the empty dictionary.
\<close>

record job =
  job_id :: string
  job_status :: string
  job_filename :: string
  job_file_size_mb :: rat
  created_at :: string
  job_file_path :: string
  started_at :: "string option"
  completed_at :: "string option"
  job_error :: "string option"
  job_error_details :: "error_details option option"
  job_result :: "enhanced_result option"

type_synonym job_storage = "(string \<times> job) list"

text \<open>\<open>repr\<close> of a job id (a UUID string: nothing to escape).\<close>

definition py_repr :: "string \<Rightarrow> string" where
  "py_repr s = [CHR 0x27] @ s @ [CHR 0x27]"

text \<open>
  \<open>job_storage[job_id].update({..., datetime.now().isoformat(), ...})\<close>: the lookup comes
  first and raises \<open>KeyError\<close> for an unknown id, then the clock is read.
\<close>

definition storage_update ::
  "env \<Rightarrow> string \<Rightarrow> (string \<Rightarrow> job \<Rightarrow> job) \<Rightarrow> world \<times> job_storage
     \<Rightarrow> exn + world \<times> job_storage" where
  "storage_update e jid f ws =
     (case ws of (w, store) \<Rightarrow>
       (case map_of store jid of
          None \<Rightarrow> Inl (Exception ''KeyError'' (py_repr jid))
        | Some j \<Rightarrow>
            (let (ts, w1) = now_isoformat e w
             in Inr (w1, AList.update jid (f ts j) store))))"

text \<open>The awaited call \<open>pipeline.process(file_path=..., filename=...)\<close>.\<close>

type_synonym pipeline = "string \<Rightarrow> string \<Rightarrow> world \<Rightarrow> (exn + process_result option) \<times> world"

text \<open>
  The dictionary built on the success path. Neither shape of the pipeline result has the
  keys \<open>processing_data\<close> or \<open>debug_info\<close>, nor \<open>time_metrics\<close> under
  \<open>processing_control\<close>, so every \<open>.get\<close> on them yields its default: the raw text is
  the empty string and the rounded figures are the integer 0.
\<close>

definition make_enhanced_result :: "process_result \<Rightarrow> enhanced_result" where
  "make_enhanced_result r =
     (let extracted = (case res_extracted_data r of None \<Rightarrow> [] | Some d \<Rightarrow> d);
          text_raw = []
      in \<lparr>enh_extracted_data = AList.update ''texto_extraido'' (JString text_raw) extracted,
          enh_processing_metrics =
            [(''ocr_confidence'', JInt 0),
             (''processing_time'', JInt 0),
             (''text_length'', JInt (int (length text_raw))),
             (''ocr_method'', JString ''Google Vision API'')],
          raw_result = r\<rparr>)"

text \<open>
  The \<open>try\<close> block of \<open>process_file_background\<close>: \<open>Inl\<close> is the exception that leaves it,
  with the world and the store at that moment.
\<close>

definition background_try ::
  "pipeline \<Rightarrow> env \<Rightarrow> string \<Rightarrow> string \<Rightarrow> string \<Rightarrow> world \<times> job_storage
     \<Rightarrow> exn \<times> world \<times> job_storage + world \<times> job_storage" where
  "background_try pl e jid fp fname ws =
     (case storage_update e jid
             (\<lambda>ts j. j\<lparr>job_status := PROCESSING, started_at := Some ts\<rparr>) ws of
        Inl ex \<Rightarrow> Inl (ex, ws)
      | Inr (w1, store1) \<Rightarrow>
         (case pl fp fname w1 of
            (Inl ex, w2) \<Rightarrow> Inl (ex, w2, store1)
          | (Inr res, w2) \<Rightarrow>
             (case res of
                None \<Rightarrow>
                  (case storage_update e jid
                          (\<lambda>ts j. j\<lparr>job_status := FAILED, completed_at := Some ts,
                                    job_error := Some (''Error cr'' @ [CHR 0xED]
                                       @ ''tico en pipeline - resultado nulo'')\<rparr>)
                          (w2, store1) of
                     Inl ex \<Rightarrow> Inl (ex, w2, store1)
                   | Inr ws3 \<Rightarrow> Inr ws3)
              | Some r \<Rightarrow>
                  if res_status r = ''FAILED''
                  then
                    (let error_msg = join ''; ''
                           (case res_error_details r of
                              None \<Rightarrow> [''Error desconocido en pipeline'']
                            | Some d \<Rightarrow> ed_errors d)
                     in case storage_update e jid
                               (\<lambda>ts j. j\<lparr>job_status := FAILED, completed_at := Some ts,
                                         job_error := Some error_msg,
                                         job_error_details := Some (res_error_details r)\<rparr>)
                               (w2, store1) of
                          Inl ex \<Rightarrow> Inl (ex, w2, store1)
                        | Inr ws3 \<Rightarrow> Inr ws3)
                  else
                    (case storage_update e jid
                            (\<lambda>ts j. j\<lparr>job_status := COMPLETED, completed_at := Some ts,
                                      job_result := Some (make_enhanced_result r)\<rparr>)
                            (w2, store1) of
                       Inl ex \<Rightarrow> Inl (ex, w2, store1)
                     | Inr ws3 \<Rightarrow> Inr ws3))))"

text \<open>\<open>os.unlink\<close> of the temporary file if it exists (the \<open>finally\<close> block).\<close>

definition cleanup_file :: "string \<Rightarrow> world \<Rightarrow> world" where
  "cleanup_file fp w = (if path_exists w fp then w\<lparr>files := (files w)(fp := None)\<rparr> else w)"

text \<open>
  \<open>process_file_background\<close>: the first component is the exception that leaves the
  function, if the handler itself raises.
\<close>

definition process_file_background ::
  "pipeline \<Rightarrow> env \<Rightarrow> string \<Rightarrow> string \<Rightarrow> string \<Rightarrow> world \<times> job_storage
     \<Rightarrow> exn option \<times> world \<times> job_storage" where
  "process_file_background pl e jid fp fname ws =
     (case background_try pl e jid fp fname ws of
        Inr (w1, store1) \<Rightarrow> (None, cleanup_file fp w1, store1)
      | Inl (ex, w1, store1) \<Rightarrow>
         (case storage_update e jid
                 (\<lambda>ts j. j\<lparr>job_status := FAILED, completed_at := Some ts,
                           job_error := Some (str_e ex)\<rparr>)
                 (w1, store1) of
            Inl ex2 \<Rightarrow> (Some ex2, cleanup_file fp w1, store1)
          | Inr (w2, store2) \<Rightarrow> (None, cleanup_file fp w2, store2)))"

subsection \<open>The endpoints\<close>

text \<open>
  An endpoint returns a value, raises an \<open>HTTPException\<close>, or lets another exception
  escape.
\<close>

datatype 'a outcome = Returns 'a | HTTPError HTTPException | Raises exn

record upload_response =
  up_job_id :: string
  up_status :: string
  up_message :: string
  up_filename :: string
  up_file_type :: string
  up_estimated_time_seconds :: nat

text \<open>The task handed to \<open>background_tasks.add_task\<close>: job id, file path, file name.\<close>

type_synonym task = "string \<times> string \<times> string"

definition upload_document ::
  "env \<Rightarrow> UploadFile \<Rightarrow> world \<times> job_storage
     \<Rightarrow> (upload_response \<times> task) outcome \<times> world \<times> job_storage" where
  "upload_document e file ws =
     (case ws of (w, store) \<Rightarrow>
       (case validate_document e file of
          Inl http \<Rightarrow> (HTTPError http, w, store)
        | Inr file_content \<Rightarrow>
           (let fname = (case upload_filename file of Some n \<Rightarrow> n | None \<Rightarrow> []);
                jid = uuid4 e (uuid_draws w);
                w1 = w\<lparr>uuid_draws := Suc (uuid_draws w)\<rparr>;
                (temp_file_path, w2) =
                   save_temp_file e file_content fname (temp_dir (settings e)) w1
            in if \<not> path_exists w2 temp_file_path
               then (HTTPError (HTTPException 400
                       ''El archivo no se pudo guardar correctamente.''), w2, store)
               else
                 (let (ts, w3) = now_isoformat e w2;
                      record_new =
                        \<lparr>job_id = jid, job_status = PENDING, job_filename = fname,
                         job_file_size_mb =
                           round_float e ((of_nat (length file_content) :: rat) / (1024 * 1024)) 2,
                         created_at = ts, job_file_path = temp_file_path,
                         started_at = None, completed_at = None, job_error = None,
                         job_error_details = None, job_result = None\<rparr>;
                      response =
                        \<lparr>up_job_id = jid, up_status = PENDING,
                         up_message = ''Documento subido exitosamente. Procesamiento iniciado.'',
                         up_filename = fname,
                         up_file_type = (if endswith (lower fname) ''.pdf'' then ''PDF''
                                         else ''Imagen''),
                         up_estimated_time_seconds = 30\<rparr>
                  in (Returns (response, (jid, temp_file_path, fname)), w3,
                      AList.update jid record_new store)))))"

record status_response =
  sr_job_id :: string
  sr_status :: string
  sr_filename :: string
  sr_created_at :: string
  sr_started_at :: "string option"
  sr_completed_at :: "string option"
  sr_result_available :: "bool option"
  sr_error :: "string option"

text \<open>\<open>job_data["completed_at"]\<close> and \<open>job_data["error"]\<close> raise \<open>KeyError\<close> on a record
  without the key.\<close>

definition get_job_status :: "job_storage \<Rightarrow> string \<Rightarrow> status_response outcome" where
  "get_job_status store jid =
     (case map_of store jid of
        None \<Rightarrow> HTTPError (HTTPException 404 ''Job ID no encontrado'')
      | Some job_data \<Rightarrow>
         (let response =
                \<lparr>sr_job_id = jid, sr_status = job_status job_data,
                 sr_filename = job_filename job_data, sr_created_at = created_at job_data,
                 sr_started_at = None, sr_completed_at = None,
                 sr_result_available = None, sr_error = None\<rparr>
          in if job_status job_data = PROCESSING \<and> started_at job_data \<noteq> None
             then Returns (response\<lparr>sr_started_at := started_at job_data\<rparr>)
             else if job_status job_data = COMPLETED
             then (case completed_at job_data of
                     None \<Rightarrow> Raises (Exception ''KeyError'' (py_repr ''completed_at''))
                   | Some c \<Rightarrow>
                       Returns (response\<lparr>sr_completed_at := Some c,
                                         sr_result_available := Some True\<rparr>))
             else if job_status job_data = FAILED
             then (case completed_at job_data of
                     None \<Rightarrow> Raises (Exception ''KeyError'' (py_repr ''completed_at''))
                   | Some c \<Rightarrow>
                      (case job_error job_data of
                         None \<Rightarrow> Raises (Exception ''KeyError'' (py_repr ''error''))
                       | Some er \<Rightarrow>
                           Returns (response\<lparr>sr_completed_at := Some c, sr_error := Some er\<rparr>)))
             else Returns response))"

record simplified_job =
  sj_job_id :: string
  sj_status :: string
  sj_filename :: string
  sj_created_at :: string
  sj_completed_at :: "string option"
  sj_error :: "string option"

text \<open>The loop of \<open>list_jobs\<close> over the sorted, truncated list.\<close>

fun simplify_jobs :: "job list \<Rightarrow> exn + simplified_job list" where
  "simplify_jobs [] = Inr []"
| "simplify_jobs (j # js) =
     (let simplified =
            \<lparr>sj_job_id = job_id j, sj_status = job_status j, sj_filename = job_filename j,
             sj_created_at = created_at j, sj_completed_at = None, sj_error = None\<rparr>
      in if job_status j = COMPLETED \<and> completed_at j = None
         then Inl (Exception ''KeyError'' (py_repr ''completed_at''))
         else
           (let simplified1 =
                  (if job_status j = COMPLETED
                   then simplified\<lparr>sj_completed_at := completed_at j\<rparr>
                   else if job_status j = FAILED
                   then simplified\<lparr>sj_error := Some (case job_error j of
                                                         None \<Rightarrow> ''Unknown error''
                                                       | Some er \<Rightarrow> er)\<rparr>
                   else simplified)
            in case simplify_jobs js of
                 Inl ex \<Rightarrow> Inl ex
               | Inr rest \<Rightarrow> Inr (simplified1 # rest)))"

text \<open>\<open>xs[:limit]\<close> for any integer.\<close>

definition slice_to :: "int \<Rightarrow> 'a list \<Rightarrow> 'a list" where
  "slice_to limit xs =
     (if 0 \<le> limit then take (nat limit) xs else take (length xs - nat (- limit)) xs)"

text \<open>\<open>list.sort(key=..., reverse=True)\<close>: descending and stable.\<close>

definition sort_created_desc :: "job list \<Rightarrow> job list" where
  "sort_created_desc js = rev (sort_key created_at (rev js))"

definition list_jobs :: "job_storage \<Rightarrow> int \<Rightarrow> (nat \<times> simplified_job list) outcome" where
  "list_jobs store limit =
     (let jobs = slice_to limit (sort_created_desc (map snd store))
      in case simplify_jobs jobs of
           Inl ex \<Rightarrow> Raises ex
         | Inr simplified_jobs \<Rightarrow> Returns (length store, simplified_jobs))"

record delete_response =
  del_message :: string
  del_job_id :: string
  del_filename :: string
  del_status :: string

definition delete_job ::
  "string \<Rightarrow> world \<times> job_storage \<Rightarrow> delete_response outcome \<times> world \<times> job_storage" where
  "delete_job jid ws =
     (case ws of (w, store) \<Rightarrow>
       (case map_of store jid of
          None \<Rightarrow> (HTTPError (HTTPException 404 ''Job ID no encontrado''), w, store)
        | Some job_data \<Rightarrow>
            (Returns \<lparr>del_message = ''Job '' @ jid @ '' eliminado exitosamente'',
                      del_job_id = jid, del_filename = job_filename job_data,
                      del_status = job_status job_data\<rparr>,
             cleanup_file (job_file_path job_data) w,
             AList.delete jid store)))"

subsection \<open>Sessions\<close>

text \<open>
  The operations that reach the job store, and a sequence of them applied one after the
  other. A background task runs to its end before the next operation starts.
\<close>

datatype operation =
    Upload UploadFile
  | Background string string string
  | Delete string
  | GetStatus string
  | ListJobs int

fun apply_operation ::
  "pipeline \<Rightarrow> env \<Rightarrow> operation \<Rightarrow> world \<times> job_storage \<Rightarrow> world \<times> job_storage" where
  "apply_operation pl e (Upload file) ws = snd (upload_document e file ws)"
| "apply_operation pl e (Background jid fp fname) ws = snd (process_file_background pl e jid fp fname ws)"
| "apply_operation pl e (Delete jid) ws = snd (delete_job jid ws)"
| "apply_operation pl e (GetStatus jid) ws = ws"
| "apply_operation pl e (ListJobs limit) ws = ws"

fun run_operations ::
  "pipeline \<Rightarrow> env \<Rightarrow> operation list \<Rightarrow> world \<times> job_storage \<Rightarrow> world \<times> job_storage" where
  "run_operations pl e [] ws = ws"
| "run_operations pl e (op # ops) ws = run_operations pl e ops (apply_operation pl e op ws)"

section \<open>What the specification says\<close>

text \<open>
  The price of the configured model in the configured pricing table, for one kind of
  token (\<open>input\<close> or \<open>output\<close>); the figures of the table are per thousand tokens.
\<close>

definition configured_price :: "Settings \<Rightarrow> string \<Rightarrow> rat option" where
  "configured_price s kind =
     (case map_of (openai_pricing s) (Settings.llm_model s) of
        None \<Rightarrow> None
      | Some prices \<Rightarrow> map_of prices kind)"

text \<open>
  What the status and list queries rely on: a record that is \<open>COMPLETED\<close> or
  \<open>FAILED\<close> has the key \<open>completed_at\<close>, and a \<open>FAILED\<close> one the key \<open>error\<close>;
  the keys of the store are distinct, as those of a dictionary are.
\<close>

definition terminal_fields_present :: "job \<Rightarrow> bool" where
  "terminal_fields_present j =
     ((job_status j = COMPLETED \<or> job_status j = FAILED \<longrightarrow> completed_at j \<noteq> None) \<and>
      (job_status j = FAILED \<longrightarrow> job_error j \<noteq> None))"

definition store_invariant :: "job_storage \<Rightarrow> bool" where
  "store_invariant store =
     (distinct (map fst store) \<and> (\<forall>(jid, j) \<in> set store. terminal_fields_present j))"


section \<open>A sample run\<close>

text \<open>
  A concrete environment for evaluating the definitions: default settings, an OCR
  answer with one line of text, and an LLM answer in a fenced block.
\<close>

definition settings0 :: Settings where
  "settings0 =
     \<lparr>openai_api_key = ''sk-test'', max_image_size_mb = 10, temp_dir = ''temp'',
      llm_model = ''gpt-4o-mini'', llm_temperature = 1 / 10,
      openai_pricing = openai_pricing_default\<rparr>"

definition llm_answer0 :: string where
  \<open>llm_answer0 = ''```json{"nombres": "ANA"}```''\<close>

definition env0 :: env where
  \<open>env0 =
     \<lparr>settings = settings0,
      VISION_AVAILABLE = True,
      PIL_AVAILABLE = True,
      GOOGLE_APPLICATION_CREDENTIALS = Some ''/tmp/credentials.json'',
      strftime_HMS = (\<lambda>n. ''12:00:00''),
      isoformat = (\<lambda>n. ''2025-01-01T12:00:00''),
      time_time = (\<lambda>n. of_nat n),
      format_float = (\<lambda>digits x. ''0.0''),
      round_float = (\<lambda>x digits. x),
      uuid4 = (\<lambda>n. ''job-'' @ str_nat n),
      uuid4_hex = (\<lambda>n. ''hex'' @ str_nat n),
      document_text_detection =
        (\<lambda>image. Inr \<lparr>error_message = [],
                        full_text_annotation =
                          Some \<lparr>annotation_text = ''NOMBRES ANA'', word_confidences = [98 / 100]\<rparr>\<rparr>),
      OpenAI_init = None,
      chat_completions_create =
        (\<lambda>request. Inr \<lparr>usage_total_tokens = Some 1000, choices_content = [Some llm_answer0]\<rparr>),
      json_loads =
        (\<lambda>s. if s = ''{"nombres": "ANA"}'' then Inr (JObject [(''nombres'', JString ''ANA'')])
             else Inl (Exception ''JSONDecodeError'' ''Expecting value: line 1 column 1 (char 0)''))\<rparr>\<close>

definition world0 :: world where
  "world0 =
     \<lparr>clock_reads = 0,
      files = [''temp/upload_hex1_dni.png'' \<mapsto> [0x89, 0x50, 0x4e, 0x47, 0x0d, 0x0a]],
      vision_calls = 0, llm_calls = 0, uuid_draws = 0\<rparr>"

definition state0 :: PipelineState where
  "state0 = create_initial_state ''temp/upload_hex1_dni.png'' ''dni.png''"

definition failed_state0 :: PipelineState where
  "failed_state0 = state0\<lparr>processing_control := (processing_control state0)\<lparr>status := ''FAILED''\<rparr>\<rparr>"

text \<open>A state as Stage A leaves it on success, and variations of the environment.\<close>

definition ready_state0 :: PipelineState where
  "ready_state0 =
     state0\<lparr>processing_data := \<lparr>raw_text = Some ''NOMBRES ANA'', ocr_confidence = 0\<rparr>\<rparr>"

definition env_gpt4o :: env where
  "env_gpt4o = env0\<lparr>settings := settings0\<lparr>llm_model := ''gpt-4o''\<rparr>\<rparr>"

definition bare_answer :: string where
  \<open>bare_answer = ''```{"nombres": "ANA"}```''\<close>

definition env_bare_fence :: env where
  "env_bare_fence = env0\<lparr>chat_completions_create :=
     (\<lambda>request. Inr \<lparr>usage_total_tokens = Some 1000, choices_content = [Some bare_answer]\<rparr>)\<rparr>"

definition env_list :: env where
  "env_list = env0\<lparr>
     chat_completions_create :=
       (\<lambda>request. Inr \<lparr>usage_total_tokens = Some 1000, choices_content = [Some ''[1, 2]'']\<rparr>),
     json_loads :=
       (\<lambda>s. if s = ''[1, 2]'' then Inr (JArray [JInt 1, JInt 2])
            else Inl (Exception ''JSONDecodeError'' ''Expecting value: line 1 column 1 (char 0)''))\<rparr>"

text \<open>A store with one submitted job, an OCR answer that is blank, a pipeline call that
  raises, and the store after a complete run.\<close>

definition job0 :: job where
  "job0 =
     \<lparr>job_id = ''job-0'', job_status = PENDING, job_filename = ''dni.png'',
      job_file_size_mb = 6 / 1048576, created_at = ''2025-01-01T11:59:59'',
      job_file_path = ''temp/upload_hex1_dni.png'',
      started_at = None, completed_at = None, job_error = None,
      job_error_details = None, job_result = None\<rparr>"

definition store0 :: job_storage where
  "store0 = [(''job-0'', job0)]"

definition blank_response :: vision_response where
  "blank_response =
     \<lparr>error_message = [],
      full_text_annotation = Some \<lparr>annotation_text = ''  \<newline> '', word_confidences = []\<rparr>\<rparr>"

definition env_blank :: env where
  "env_blank = env0\<lparr>document_text_detection := (\<lambda>image. Inr blank_response)\<rparr>"


definition completed_store0 :: job_storage where
  "completed_store0 =
     snd (snd (process_file_background (Pipeline_process env0) env0 ''job-0''
                 ''temp/upload_hex1_dni.png'' ''dni.png'' (world0, store0)))"

text \<open>An upload, a session that submits it and processes it, and the store it leaves when
  the OCR text is blank.\<close>

definition upload0 :: UploadFile where
  "upload0 = \<lparr>upload_filename = Some ''dni.png'',
              upload_content = [0x89, 0x50, 0x4e, 0x47, 0x0d, 0x0a]\<rparr>"

definition empty_world :: world where
  "empty_world = \<lparr>clock_reads = 0, files = Map.empty, vision_calls = 0, llm_calls = 0, uuid_draws = 0\<rparr>"

definition session0 :: "operation list" where
  "session0 = [Upload upload0, Background ''job-0'' ''temp/upload_hex1_dni.png'' ''dni.png'']"

definition failed_store0 :: job_storage where
  "failed_store0 =
     snd (run_operations (Pipeline_process env_blank) env_blank session0 (empty_world, []))"


section \<open>Basic facts about the state methods and Stage B\<close>

lemma update_stage_eq:
  "update_stage e stage (w, st) =
     (w\<lparr>clock_reads := Suc (clock_reads w)\<rparr>,
      st\<lparr>processing_control := (processing_control st)\<lparr>processing_stage := stage\<rparr>,
         logging := (logging st)\<lparr>messages := messages (logging st)
            @ [''['' @ strftime_HMS e (clock_reads w) @ ''] '' @ ''Iniciando etapa: '' @ stage]\<rparr>\<rparr>)"
  by (simp add: now_strftime_def)

lemma add_error_eq:
  "add_error e err (w, st) =
     (w\<lparr>clock_reads := Suc (clock_reads w)\<rparr>,
      st\<lparr>logging := (logging st)\<lparr>errors := errors (logging st)
            @ [''['' @ strftime_HMS e (clock_reads w) @ ''] '' @ err]\<rparr>,
         processing_control := (processing_control st)\<lparr>status := ''FAILED''\<rparr>\<rparr>)"
  by (simp add: now_strftime_def)

lemma add_message_eq:
  "add_message e m (w, st) =
     (w\<lparr>clock_reads := Suc (clock_reads w)\<rparr>,
      st\<lparr>logging := (logging st)\<lparr>messages := messages (logging st)
            @ [''['' @ strftime_HMS e (clock_reads w) @ ''] '' @ m]\<rparr>\<rparr>)"
  by (simp add: now_strftime_def)

declare add_message.simps [simp del] update_stage.simps [simp del]
  add_error.simps [simp del] add_warning.simps [simp del]

lemma add_error_status [simp]:
  "status (processing_control (snd (add_error e m ws))) = ''FAILED''"
  by (cases ws) (simp add: add_error_eq)

lemma add_message_status [simp]:
  "status (processing_control (snd (add_message e m ws))) = status (processing_control (snd ws))"
  by (cases ws) (simp add: add_message_eq)

lemma update_stage_status [simp]:
  "status (processing_control (snd (update_stage e m ws))) = status (processing_control (snd ws))"
  by (cases ws) (simp add: update_stage_eq)

lemma llm_success_status [simp]:
  "status (processing_control (snd (llm_success e n c sp up d ws))) = ''COMPLETED''"
  by (cases ws) (simp add: llm_success_def update_metrics_def Let_def add_message_eq)

lemma llm_success_metrics:
  "metrics (snd (llm_success e n c sp up d (w, st))) =
     (metrics st)\<lparr>tokens_used := tokens_used (metrics st) + n,
                  processing_time := processing_time (metrics st),
                  cost_estimate := cost_estimate (metrics st) + (of_int n / 1000) * (15 / 100000)\<rparr>"
  by (simp add: llm_success_def update_metrics_def Let_def add_message_eq)

lemma llm_success_extracted:
  "extracted_data (snd (llm_success e n c sp up d (w, st))) = d"
  by (simp add: llm_success_def update_metrics_def Let_def add_message_eq)

text \<open>A \<open>try\<close> block that ends normally has run every statement of the success path.\<close>

lemma llm_try_Inr:
  "llm_try e (w, state) = Inr ws' \<Longrightarrow>
   \<exists>t response raw rest d.
      raw_text (processing_data state) = Some t \<and> t \<noteq> [] \<and>
      chat_completions_create e
        \<lparr>req_model = Settings.llm_model (settings e),
         req_system = EXTRACTION_SYSTEM_PROMPT, req_user = EXTRACTION_USER_PROMPT t,
         req_max_tokens = 1500, req_temperature = llm_temperature (settings e),
         req_top_p = 9 / 10\<rparr> = Inr response \<and>
      choices_content response = Some raw # rest \<and>
      json_loads e (strip (clean_json_format (strip raw))) = Inr (JObject d) \<and>
      ws' = llm_success e (case usage_total_tokens response of Some n \<Rightarrow> n | None \<Rightarrow> 0)
              (clean_json_format (strip raw)) EXTRACTION_SYSTEM_PROMPT (EXTRACTION_USER_PROMPT t) d
              (w\<lparr>llm_calls := Suc (llm_calls w)\<rparr>, state)"
  by (auto simp: llm_try_def generate_extraction_prompts_def Let_def
       split: option.splits if_splits sum.splits list.splits json.splits)

lemma llm_node_run:
  assumes "status (processing_control state) \<noteq> ''FAILED''" "OpenAI_init e = None"
  shows "llm_node e (w, state) =
     (case llm_try e (update_stage e ''llm_processing'' (w, state)) of
        Inr ws2 \<Rightarrow> ws2
      | Inl (ex, w2) \<Rightarrow>
          add_error e (''Error en extracci'' @ [CHR 0xF3] @ ''n LLM: '' @ str_e ex)
            (w2, snd (update_stage e ''llm_processing'' (w, state))))"
  using assms by (simp add: llm_node_def Let_def)

lemma llm_node_completed:
  assumes "status (processing_control (snd (llm_node e (w, state)))) \<noteq> ''FAILED''"
  shows "\<exists>ws1. llm_try e (update_stage e ''llm_processing'' (w, state)) = Inr ws1
           \<and> llm_node e (w, state) = ws1"
  using assms
  by (auto simp: llm_node_def Let_def split: if_splits option.splits sum.splits prod.splits)

subsection \<open>Stripping whitespace and fences\<close>

lemma strip_fenced:
  assumes "\<forall>c\<in>set (lead @ trail). isspace c"
  shows "strip (lead @ ''```json'' @ body @ ''```'' @ trail) = ''```json'' @ body @ ''```''"
proof -
  have ns: "\<not> isspace CHR ''`''" by (simp add: isspace_def)
  have l: "dropWhile isspace lead = []" using assms by simp
  have t: "dropWhile isspace (rev trail) = []" using assms by simp
  have 1: "lstrip (lead @ ''```json'' @ body @ ''```'' @ trail) = ''```json'' @ body @ ''```'' @ trail"
    unfolding lstrip_def using dropWhile_append3 [of isspace "CHR ''`''" lead] l ns by simp
  have "rev (''```json'' @ body @ ''```'' @ trail)
          = rev trail @ CHR ''`'' # (''``'' @ rev body @ rev ''```json'')"
    by simp
  then have 2: "dropWhile isspace (rev (''```json'' @ body @ ''```'' @ trail))
          = CHR ''`'' # (''``'' @ rev body @ rev ''```json'')"
    using dropWhile_append3 [of isspace "CHR ''`''" "rev trail"] t ns by simp
  show ?thesis unfolding strip_def 1 rstrip_def 2 by simp
qed

lemma clean_fenced: "clean_json_format (''```json'' @ body @ ''```'') = body"
  by (simp add: clean_json_format_def startswith_def endswith_def)

lemma clean_leading:
  "\<not> endswith body ''```'' \<Longrightarrow> clean_json_format (''```json'' @ body) = body"
  by (simp add: clean_json_format_def startswith_def)

lemma clean_trailing:
  "\<not> startswith (body @ ''```'') ''```json'' \<Longrightarrow> clean_json_format (body @ ''```'') = body"
  by (simp add: clean_json_format_def endswith_def)

lemma clean_none:
  "\<not> startswith c ''```json'' \<Longrightarrow> \<not> endswith c ''```'' \<Longrightarrow> clean_json_format c = c"
  by (simp add: clean_json_format_def)

section \<open>Basic facts about Stage A\<close>


lemma size_check:
  "((of_nat n :: rat) / (1024 * 1024) > of_nat m) = (n > m * 1048576)"
proof -
  have "((of_nat n :: rat) / (1024 * 1024) > of_nat m) = ((of_nat m :: rat) * 1048576 < of_nat n)"
    by (simp add: pos_less_divide_eq)
  also have "\<dots> = ((of_nat (m * 1048576) :: rat) < of_nat n)"
    by simp
  also have "\<dots> = (m * 1048576 < n)"
    by (simp only: of_nat_less_iff)
  finally show ?thesis .
qed

lemma read_time_eq:
  "read_time e w = (time_time e (clock_reads w), w\<lparr>clock_reads := Suc (clock_reads w)\<rparr>)"
  by (simp add: read_time_def)

lemma extract_text_llm_calls:
  "llm_calls (snd (extract_text_with_google_vision e p w)) = llm_calls w"
  by (auto simp: extract_text_with_google_vision_def read_image_bytes_def
        call_vision_text_detection_def Let_def split: option.splits sum.splits prod.splits if_splits)

lemma image_ocr_step_status:
  "status (processing_control (snd (image_ocr_step e fp mb t0 (w, st)))) = ''FAILED'' \<or>
   status (processing_control (snd (image_ocr_step e fp mb t0 (w, st)))) = status (processing_control st)"
  by (auto simp: image_ocr_step_def Let_def add_error_eq add_message_eq read_time_eq
        split: prod.splits sum.splits)

lemma image_ocr_step_frame:
  "ocr_confidence (processing_data (snd (image_ocr_step e fp mb t0 (w, st)))) = ocr_confidence (processing_data st) \<and>
   llm_calls (fst (image_ocr_step e fp mb t0 (w, st))) = llm_calls w \<and>
   extracted_data (snd (image_ocr_step e fp mb t0 (w, st))) = extracted_data st \<and>
   metrics (snd (image_ocr_step e fp mb t0 (w, st))) = metrics st"
  using extract_text_llm_calls [of e fp w]
  by (auto simp: image_ocr_step_def Let_def add_error_eq add_message_eq read_time_eq
        split: prod.splits sum.splits)

text \<open>The node ends in one of its error exits or in the OCR step.\<close>

lemma image_processing_node_cases:
  assumes "\<And>m. P (add_error e m (w\<lparr>clock_reads := Suc (Suc (clock_reads w))\<rparr>,
                      snd (update_stage e ''ImageProcessing'' (w, st))))"
    and "\<And>fp mb t0 m. P (image_ocr_step e fp mb t0
            (add_message e m (w\<lparr>clock_reads := Suc (Suc (clock_reads w))\<rparr>,
                      snd (update_stage e ''ImageProcessing'' (w, st)))))"
  shows "P (image_processing_node e (w, st))"
  using assms
  by (simp add: image_processing_node_def Let_def update_stage_eq read_time_eq
        split: prod.splits sum.splits)

lemma image_processing_node_status:
  "status (processing_control (snd (image_processing_node e (w, st)))) = ''FAILED'' \<or>
   status (processing_control (snd (image_processing_node e (w, st)))) = status (processing_control st)"
proof (rule image_processing_node_cases)
  fix m
  show "status (processing_control (snd (add_error e m (w\<lparr>clock_reads := Suc (Suc (clock_reads w))\<rparr>,
                      snd (update_stage e ''ImageProcessing'' (w, st)))))) = ''FAILED'' \<or>
        status (processing_control (snd (add_error e m (w\<lparr>clock_reads := Suc (Suc (clock_reads w))\<rparr>,
                      snd (update_stage e ''ImageProcessing'' (w, st)))))) = status (processing_control st)"
    by simp
next
  fix fp mb t0 m
  let ?ws = "add_message e m (w\<lparr>clock_reads := Suc (Suc (clock_reads w))\<rparr>,
                      snd (update_stage e ''ImageProcessing'' (w, st)))"
  have "status (processing_control (snd ?ws)) = status (processing_control st)"
    by simp
  with image_ocr_step_status [of e fp mb t0 "fst ?ws" "snd ?ws"]
  show "status (processing_control (snd (image_ocr_step e fp mb t0 ?ws))) = ''FAILED'' \<or>
        status (processing_control (snd (image_ocr_step e fp mb t0 ?ws))) = status (processing_control st)"
    by simp
qed

lemma image_processing_node_frame:
  "ocr_confidence (processing_data (snd (image_processing_node e (w, st)))) = ocr_confidence (processing_data st) \<and>
   llm_calls (fst (image_processing_node e (w, st))) = llm_calls w \<and>
   extracted_data (snd (image_processing_node e (w, st))) = extracted_data st \<and>
   metrics (snd (image_processing_node e (w, st))) = metrics st"
  by (rule image_processing_node_cases)
     (simp_all add: add_error_eq add_message_eq update_stage_eq image_ocr_step_frame)

lemma update_metrics_status [simp]:
  "status (processing_control (update_metrics n d st)) = status (processing_control st)"
  by (simp add: update_metrics_def)

lemma add_warning_status [simp]:
  "status (processing_control (snd (add_warning e m ws))) = status (processing_control (snd ws))"
  by (cases ws) (simp add: add_warning.simps now_strftime_def)

lemma extract_text_Inr:
  assumes "extract_text_with_google_vision e fp w = (Inr text, w1)"
  shows "\<exists>bs response. files w fp = Some bs \<and> document_text_detection e bs = Inr response \<and>
           error_message response = [] \<and> VISION_AVAILABLE e \<and>
           text = (case full_text_annotation response of None \<Rightarrow> [] | Some a \<Rightarrow> annotation_text a) \<and>
           w1 = w\<lparr>vision_calls := Suc (vision_calls w)\<rparr>"
  using assms
  by (auto simp: extract_text_with_google_vision_def read_image_bytes_def
        call_vision_text_detection_def Let_def split: option.splits sum.splits prod.splits if_splits)

lemma image_ocr_step_success:
  assumes "status (processing_control (snd (image_ocr_step e fp mb t0 (w, st)))) \<noteq> ''FAILED''"
  shows "\<exists>bs response a. files w fp = Some bs \<and> document_text_detection e bs = Inr response \<and>
           full_text_annotation response = Some a \<and> strip (annotation_text a) \<noteq> [] \<and>
           raw_text (processing_data (snd (image_ocr_step e fp mb t0 (w, st))))
             = Some (strip (annotation_text a)) \<and>
           vision_calls (fst (image_ocr_step e fp mb t0 (w, st))) = Suc (vision_calls w)"
proof -
  obtain r w1 where x: "extract_text_with_google_vision e fp w = (r, w1)"
    by (cases "extract_text_with_google_vision e fp w")
  show ?thesis
  proof (cases r)
    case (Inl ex)
    with x assms show ?thesis by (simp add: image_ocr_step_def)
  next
    case (Inr tx)
    with x assms have ne: "tx \<noteq> []" "strip tx \<noteq> []"
      by (auto simp: image_ocr_step_def split: if_splits)
    from extract_text_Inr [OF x [unfolded Inr]] obtain bs response where
      f: "files w fp = Some bs" and d: "document_text_detection e bs = Inr response" and
      t: "tx = (case full_text_annotation response of None \<Rightarrow> [] | Some a \<Rightarrow> annotation_text a)" and
      w1: "w1 = w\<lparr>vision_calls := Suc (vision_calls w)\<rparr>"
      by blast
    from t ne obtain a where a: "full_text_annotation response = Some a" "tx = annotation_text a"
      by (cases "full_text_annotation response") auto
    have "raw_text (processing_data (snd (image_ocr_step e fp mb t0 (w, st)))) = Some (strip tx) \<and>
          vision_calls (fst (image_ocr_step e fp mb t0 (w, st))) = Suc (vision_calls w)"
      using x Inr ne w1
      by (simp add: image_ocr_step_def Let_def read_time_eq add_message_eq)
    with f d a ne show ?thesis by auto
  qed
qed

section \<open>Basic facts about the pipeline and the background task\<close>


lemma storage_update_Some:
  "map_of store jid = Some j \<Longrightarrow>
     storage_update e jid f (w, store) =
       Inr (w\<lparr>clock_reads := Suc (clock_reads w)\<rparr>,
            AList.update jid (f (isoformat e (clock_reads w)) j) store)"
  by (simp add: storage_update_def now_isoformat_def)

lemma storage_update_None:
  "map_of store jid = None \<Longrightarrow>
     storage_update e jid f (w, store) = Inl (Exception ''KeyError'' (py_repr jid))"
  by (simp add: storage_update_def)

text \<open>Stage A when every check passes and the OCR text is blank.\<close>

lemma image_node_blank:
  assumes "VISION_AVAILABLE e" and "GOOGLE_APPLICATION_CREDENTIALS e = Some cred" and "cred \<noteq> []"
    and "PIL_AVAILABLE e"
    and "files w (file_path (document_info st)) = Some bs"
    and "is_image_file (file_path (document_info st))"
    and "length bs \<le> max_image_size_mb (settings e) * 1048576"
    and "document_text_detection e bs = Inr response" and "error_message response = []"
    and "strip (case full_text_annotation response of None \<Rightarrow> [] | Some a \<Rightarrow> annotation_text a) = []"
  shows "image_processing_node e (w, st) =
     add_error e (''No se detect'' @ [CHR 0xF3] @ '' texto en la imagen'')
       (w\<lparr>clock_reads := Suc (Suc (Suc (clock_reads w))), vision_calls := Suc (vision_calls w)\<rparr>,
        snd (add_message e
          (''Imagen v'' @ [CHR 0xE1] @ ''lida: ''
             @ format_float e 2 ((of_nat (length bs) :: rat) / (1024 * 1024)) @ ''MB'')
          (w\<lparr>clock_reads := Suc (Suc (clock_reads w))\<rparr>,
           snd (update_stage e ''ImageProcessing'' (w, st)))))"
proof -
  let ?fp = "file_path (document_info st)"
  let ?tx = "case full_text_annotation response of None \<Rightarrow> [] | Some a \<Rightarrow> annotation_text a"
  have sz: "\<not> (of_nat (length bs) :: rat) / (1024 * 1024) > of_nat (max_image_size_mb (settings e))"
    using assms(7) by (simp only: size_check)
  have ex: "extract_text_with_google_vision e ?fp w' = (Inr ?tx, w'\<lparr>vision_calls := Suc (vision_calls w')\<rparr>)"
    if "files w' = files w" for w'
    using assms that
    by (simp add: extract_text_with_google_vision_def read_image_bytes_def
          call_vision_text_detection_def Let_def split: option.splits)
  have v: "validate_tesseract_installation e = (True, ''Google Vision API disponible'')"
    using assms(1-3) by (simp add: validate_tesseract_installation_def)
  have p: "validate_image_dependencies e = Inr ()"
    using assms(4) by (simp add: validate_image_dependencies_def)
  show ?thesis
    using v p sz assms(5,6,10)
    by (simp add: image_processing_node_def Let_def update_stage_eq read_time_eq add_message_eq
          path_exists_def st_size_def image_ocr_step_def ex add_error_eq)
qed


lemma Pipeline_process_blank:
  assumes "VISION_AVAILABLE e" and "GOOGLE_APPLICATION_CREDENTIALS e = Some cred" and "cred \<noteq> []"
    and "PIL_AVAILABLE e"
    and "files w fp = Some bs"
    and "is_image_file fp"
    and "length bs \<le> max_image_size_mb (settings e) * 1048576"
    and "document_text_detection e bs = Inr response" and "error_message response = []"
    and "strip (case full_text_annotation response of None \<Rightarrow> [] | Some a \<Rightarrow> annotation_text a) = []"
  shows "\<exists>r w'. Pipeline_process e fp fname w = (Inr (Some r), w') \<and>
           res_status r = ''FAILED'' \<and>
           res_error_details r = Some
             \<lparr>ed_errors = [''['' @ strftime_HMS e (Suc (Suc (Suc (clock_reads w))))
                               @ ''] No se detect'' @ [CHR 0xF3] @ '' texto en la imagen''],
              ed_warnings = [], last_stage = ''ImageProcessing''\<rparr> \<and>
           llm_calls w' = llm_calls w \<and> vision_calls w' = Suc (vision_calls w) \<and>
           files w' = files w \<and> clock_reads w' = clock_reads w + 4"
proof -
  let ?w1 = "w\<lparr>uuid_draws := Suc (uuid_draws w)\<rparr>"
  let ?st = "create_initial_state fp fname"
  have fp: "file_path (document_info ?st) = fp"
    by (simp add: create_initial_state_def)
  have f: "files ?w1 (file_path (document_info ?st)) = Some bs"
    using assms(5) fp by simp
  have i: "is_image_file (file_path (document_info ?st))"
    using assms(6) fp by simp
  note n = image_node_blank [OF assms(1-4) f i assms(7-10)]
  have s: "status (processing_control (snd (image_processing_node e (?w1, ?st)))) = ''FAILED''"
    unfolding n by simp
  have g: "graph_ainvoke e (?w1, ?st) = image_processing_node e (?w1, ?st)"
    using s by (cases "image_processing_node e (?w1, ?st)") (simp add: graph_ainvoke_def llm_node_def)
  show ?thesis
    unfolding Pipeline_process_def Let_def g n
    by (simp add: add_error_eq add_message_eq update_stage_eq create_initial_state_def
          LoggingData_default_def ProcessingControl_default_def)
qed


text \<open>The record a finished background task leaves, by the outcome of the pipeline call.\<close>

lemma process_file_background_present:
  assumes "map_of store jid = Some j"
    and "pl fp fname (w\<lparr>clock_reads := Suc (clock_reads w)\<rparr>) = (out, w2)"
  shows "process_file_background pl e jid fp fname (w, store) =
     (None, cleanup_file fp (w2\<lparr>clock_reads := Suc (clock_reads w2)\<rparr>),
      AList.update jid
        (let j1 = j\<lparr>job_status := PROCESSING, started_at := Some (isoformat e (clock_reads w))\<rparr>;
             ts = isoformat e (clock_reads w2)
         in case out of
              Inl ex \<Rightarrow> j1\<lparr>job_status := FAILED, completed_at := Some ts,
                              job_error := Some (str_e ex)\<rparr>
            | Inr None \<Rightarrow> j1\<lparr>job_status := FAILED, completed_at := Some ts,
                              job_error := Some (''Error cr'' @ [CHR 0xED]
                                 @ ''tico en pipeline - resultado nulo'')\<rparr>
            | Inr (Some r) \<Rightarrow>
                if res_status r = ''FAILED''
                then j1\<lparr>job_status := FAILED, completed_at := Some ts,
                        job_error := Some (join ''; ''
                           (case res_error_details r of
                              None \<Rightarrow> [''Error desconocido en pipeline'']
                            | Some d \<Rightarrow> ed_errors d)),
                        job_error_details := Some (res_error_details r)\<rparr>
                else j1\<lparr>job_status := COMPLETED, completed_at := Some ts,
                        job_result := Some (make_enhanced_result r)\<rparr>)
        store)"
proof -
  let ?j1 = "j\<lparr>job_status := PROCESSING, started_at := Some (isoformat e (clock_reads w))\<rparr>"
  let ?s1 = "AList.update jid ?j1 store"
  have m1: "map_of ?s1 jid = Some ?j1"
    by (simp add: update_conv')
  have u1: "storage_update e jid (\<lambda>ts j. j\<lparr>job_status := PROCESSING, started_at := Some ts\<rparr>) (w, store)
            = Inr (w\<lparr>clock_reads := Suc (clock_reads w)\<rparr>, ?s1)"
    using storage_update_Some [OF assms(1)] by simp
  have u2: "storage_update e jid f (w2, ?s1) =
            Inr (w2\<lparr>clock_reads := Suc (clock_reads w2)\<rparr>,
                 AList.update jid (f (isoformat e (clock_reads w2)) ?j1) store)" for f
    using storage_update_Some [OF m1, of e f w2] by (simp add: update_last)
  show ?thesis
  proof (cases out)
    case (Inl ex)
    then show ?thesis
      using assms(2) by (simp add: process_file_background_def background_try_def u1 u2 Let_def)
  next
    case (Inr res)
    then show ?thesis
      using assms(2)
      by (cases res) (simp_all add: process_file_background_def background_try_def u1 u2 Let_def)
  qed
qed

lemma process_file_background_absent:
  assumes "map_of store jid = None"
  shows "process_file_background pl e jid fp fname (w, store) =
           (Some (Exception ''KeyError'' (py_repr jid)), cleanup_file fp w, store)"
  using assms
  by (simp add: process_file_background_def background_try_def storage_update_None)

lemma status_constants:
  "COMPLETED \<noteq> PROCESSING" "FAILED \<noteq> PROCESSING" "COMPLETED \<noteq> FAILED" "FAILED \<noteq> COMPLETED"
  "PENDING \<noteq> COMPLETED" "PENDING \<noteq> FAILED" "PROCESSING \<noteq> COMPLETED" "PROCESSING \<noteq> FAILED"
  by (simp_all add: COMPLETED_def PROCESSING_def FAILED_def PENDING_def)

text \<open>A result of \<open>Pipeline.process\<close> that is not the failure shape carries the mapping the
  JSON parser returned for the post-processed LLM answer.\<close>

lemma Pipeline_process_result:
  assumes "Pipeline_process e fp fname w = (out, w')"
  shows "\<exists>r. out = Inr (Some r) \<and>
           (res_status r \<noteq> ''FAILED'' \<longrightarrow>
              (\<exists>t response raw rest d.
                 chat_completions_create e
                   \<lparr>req_model = Settings.llm_model (settings e),
                    req_system = EXTRACTION_SYSTEM_PROMPT, req_user = EXTRACTION_USER_PROMPT t,
                    req_max_tokens = 1500, req_temperature = llm_temperature (settings e),
                    req_top_p = 9 / 10\<rparr> = Inr response \<and>
                 choices_content response = Some raw # rest \<and>
                 json_loads e (strip (clean_json_format (strip raw))) = Inr (JObject d) \<and>
                 res_extracted_data r = Some d))"
proof -
  let ?w1 = "w\<lparr>uuid_draws := Suc (uuid_draws w)\<rparr>"
  let ?a = "image_processing_node e (?w1, create_initial_state fp fname)"
  let ?f = "llm_node e (fst ?a, snd ?a)"
  have g: "graph_ainvoke e (?w1, create_initial_state fp fname) = ?f"
    by (simp add: graph_ainvoke_def)
  show ?thesis
  proof (cases "status (processing_control (snd ?f)) = ''FAILED''")
    case True
    with assms g show ?thesis
      by (auto simp: Pipeline_process_def Let_def split: prod.splits)
  next
    case False
    from llm_node_completed [OF False] obtain ws1 where
      t: "llm_try e (update_stage e ''llm_processing'' (fst ?a, snd ?a)) = Inr ws1" and
      n: "?f = ws1"
      by blast
    from llm_try_Inr [OF t [unfolded update_stage_eq]] obtain t' response raw rest d tok c sp up w3 s3
      where
        c: "chat_completions_create e
                   \<lparr>req_model = Settings.llm_model (settings e),
                    req_system = EXTRACTION_SYSTEM_PROMPT, req_user = EXTRACTION_USER_PROMPT t',
                    req_max_tokens = 1500, req_temperature = llm_temperature (settings e),
                    req_top_p = 9 / 10\<rparr> = Inr response" and
        ch: "choices_content response = Some raw # rest" and
        j: "json_loads e (strip (clean_json_format (strip raw))) = Inr (JObject d)" and
        w: "ws1 = llm_success e tok c sp up d (w3, s3)"
      by blast
    have x: "extracted_data (snd ?f) = d"
      using n w by (simp add: llm_success_extracted)
    have "\<exists>r. out = Inr (Some r) \<and> res_extracted_data r = Some d"
      using assms g False x
      by (auto simp: Pipeline_process_def Let_def split: prod.splits)
    with c ch j show ?thesis by blast
  qed
qed

section \<open>Basic facts about the job store\<close>

lemma set_update_subset: "set (AList.update k v al) \<subseteq> insert (k, v) (set al)"
  by (induction al) auto

lemma set_delete_subset: "set (AList.delete k al) \<subseteq> set al"
  by (induction al) auto

lemma store_invariant_update:
  assumes "store_invariant store" "terminal_fields_present j"
  shows "store_invariant (AList.update jid j store)"
  using assms set_update_subset [of jid j store]
  by (auto simp: store_invariant_def distinct_update)

lemma store_invariant_delete:
  assumes "store_invariant store"
  shows "store_invariant (AList.delete jid store)"
  using assms set_delete_subset [of jid store]
  by (auto simp: store_invariant_def distinct_delete)

lemma store_invariant_lookup:
  "store_invariant store \<Longrightarrow> map_of store jid = Some j \<Longrightarrow> terminal_fields_present j"
  by (auto simp: store_invariant_def dest: map_of_SomeD)

lemma upload_document_invariant:
  assumes "store_invariant store"
  shows "store_invariant (snd (snd (upload_document e file (w, store))))"
proof -
  have p: "terminal_fields_present (j\<lparr>job_status := PENDING\<rparr>)" for j
    using status_constants by (simp add: terminal_fields_present_def)
  show ?thesis
    using assms
    by (auto simp: upload_document_def Let_def save_temp_file_def now_isoformat_def
          terminal_fields_present_def status_constants
          intro!: store_invariant_update split: sum.splits prod.splits)
qed

lemma process_file_background_invariant:
  assumes "store_invariant store"
  shows "store_invariant (snd (snd (process_file_background pl e jid fp fname (w, store))))"
proof (cases "map_of store jid")
  case None
  then show ?thesis
    using assms by (simp add: process_file_background_absent)
next
  case (Some j)
  obtain out w2 where p: "pl fp fname (w\<lparr>clock_reads := Suc (clock_reads w)\<rparr>) = (out, w2)"
    by (cases "pl fp fname (w\<lparr>clock_reads := Suc (clock_reads w)\<rparr>)")
  show ?thesis
    unfolding process_file_background_present
      [where pl = pl and e = e and fp = fp and fname = fname, OF Some p]
    using assms
    by (auto simp: Let_def terminal_fields_present_def status_constants
          intro!: store_invariant_update split: sum.splits option.splits)
qed

lemma delete_job_invariant:
  assumes "store_invariant store"
  shows "store_invariant (snd (snd (delete_job jid (w, store))))"
  using assms by (auto simp: delete_job_def store_invariant_delete split: option.splits)

lemma apply_operation_invariant:
  assumes "store_invariant (snd ws)"
  shows "store_invariant (snd (apply_operation pl e op ws))"
  using assms upload_document_invariant process_file_background_invariant delete_job_invariant
  by (cases ws; cases op) simp_all

lemma run_operations_invariant:
  "store_invariant (snd ws) \<Longrightarrow> store_invariant (snd (run_operations pl e ops ws))"
  by (induction ops arbitrary: ws) (simp_all add: apply_operation_invariant)

lemma get_job_status_no_raise:
  assumes "store_invariant store"
  shows "get_job_status store jid \<noteq> Raises ex"
proof (cases "map_of store jid")
  case None
  then show ?thesis by (simp add: get_job_status_def)
next
  case (Some j)
  from store_invariant_lookup [OF assms Some] show ?thesis
    using Some
    by (auto simp: get_job_status_def Let_def terminal_fields_present_def)
qed

lemma simplify_jobs_no_raise:
  "\<forall>j\<in>set js. terminal_fields_present j \<Longrightarrow> \<exists>r. simplify_jobs js = Inr r"
  by (induction js) (auto simp: Let_def terminal_fields_present_def)

lemma set_slice_to: "set (slice_to limit xs) \<subseteq> set xs"
  by (auto simp: slice_to_def dest: in_set_takeD)

lemma list_jobs_no_raise:
  assumes "store_invariant store"
  shows "list_jobs store limit \<noteq> Raises ex"
proof -
  have "\<forall>j\<in>set (slice_to limit (sort_created_desc (map snd store))). terminal_fields_present j"
    using assms set_slice_to [of limit "sort_created_desc (map snd store)"]
    by (fastforce simp: store_invariant_def sort_created_desc_def)
  from simplify_jobs_no_raise [OF this] show ?thesis
    by (auto simp: list_jobs_def Let_def)
qed

section \<open>Basic facts about the validation of uploads\<close>












section \<open>Stage B passes a failed state through\<close>

text \<open>
  C2. If the status is already \<open>FAILED\<close> when \<open>llm_node\<close> begins, the node returns the
  world and the state exactly as it received them: the LLM call counter is the same, no
  error, message, stage or metric is written.
\<close>

theorem llm_node_failed_passthrough:
  "status (processing_control state) = ''FAILED'' \<Longrightarrow>
     llm_node e (w, state) = (w, state) \<and> llm_calls (fst (llm_node e (w, state))) = llm_calls w"
  by (simp add: llm_node_def)

theorem llm_node_failed_passthrough_witness:
  "status (processing_control failed_state0) = ''FAILED'' \<and>
   llm_node env0 (world0, failed_state0) = (world0, failed_state0) \<and>
   llm_calls (fst (llm_node env0 (world0, failed_state0))) = llm_calls world0"
proof -
  have h: "status (processing_control failed_state0) = ''FAILED''"
    by (simp add: failed_state0_def)
  show ?thesis
    using h llm_node_failed_passthrough [OF h, of env0 world0] by simp
qed

section \<open>The cost estimate of Stage B\<close>

text \<open>
  C5, as amended. On every successful run of \<open>llm_node\<close> the token count grows by the
  total the LLM answer reports (0 when it reports no usage), and the cost estimate grows
  by that many tokens, divided by 1000, times the fixed figure 0.00015 written in
  \<open>update_metrics\<close>; the configured model and pricing table are not consulted, and the
  elapsed time is left as it was.
\<close>

theorem llm_node_cost_estimate:
  assumes "status (processing_control (snd (llm_node e (w, state)))) = ''COMPLETED''"
  shows "\<exists>t response.
      raw_text (processing_data state) = Some t \<and>
      chat_completions_create e
        \<lparr>req_model = Settings.llm_model (settings e),
         req_system = EXTRACTION_SYSTEM_PROMPT, req_user = EXTRACTION_USER_PROMPT t,
         req_max_tokens = 1500, req_temperature = llm_temperature (settings e),
         req_top_p = 9 / 10\<rparr> = Inr response \<and>
      (let n = (case usage_total_tokens response of Some k \<Rightarrow> k | None \<Rightarrow> 0);
           m = metrics state;
           m' = metrics (snd (llm_node e (w, state)))
       in tokens_used m' = tokens_used m + n \<and>
          cost_estimate m' = cost_estimate m + of_int n / 1000 * (15 / 100000) \<and>
          processing_time m' = processing_time m)"
proof -
  from assms have "status (processing_control (snd (llm_node e (w, state)))) \<noteq> ''FAILED''"
    by simp
  then obtain ws1 where
    t: "llm_try e (update_stage e ''llm_processing'' (w, state)) = Inr ws1" and
    n: "llm_node e (w, state) = ws1"
    using llm_node_completed by blast
  from llm_try_Inr [OF t [unfolded update_stage_eq]] n
  show ?thesis
    by (auto simp: llm_success_metrics Let_def)
qed

theorem llm_node_cost_estimate_witness:
  "status (processing_control (snd (llm_node env0 (world0, ready_state0)))) = ''COMPLETED'' \<and>
   tokens_used (metrics (snd (llm_node env0 (world0, ready_state0)))) = 1000 \<and>
   cost_estimate (metrics (snd (llm_node env0 (world0, ready_state0)))) = 15 / 100000 \<and>
   (\<exists>t response.
      raw_text (processing_data ready_state0) = Some t \<and>
      chat_completions_create env0
        \<lparr>req_model = Settings.llm_model (settings env0),
         req_system = EXTRACTION_SYSTEM_PROMPT, req_user = EXTRACTION_USER_PROMPT t,
         req_max_tokens = 1500, req_temperature = llm_temperature (settings env0),
         req_top_p = 9 / 10\<rparr> = Inr response \<and>
      (let n = (case usage_total_tokens response of Some k \<Rightarrow> k | None \<Rightarrow> 0);
           m = metrics ready_state0;
           m' = metrics (snd (llm_node env0 (world0, ready_state0)))
       in tokens_used m' = tokens_used m + n \<and>
          cost_estimate m' = cost_estimate m + of_int n / 1000 * (15 / 100000) \<and>
          processing_time m' = processing_time m))"
proof -
  have h: "status (processing_control (snd (llm_node env0 (world0, ready_state0)))) = ''COMPLETED''"
    by code_simp
  have a: "tokens_used (metrics (snd (llm_node env0 (world0, ready_state0)))) = 1000"
    by code_simp
  have b: "cost_estimate (metrics (snd (llm_node env0 (world0, ready_state0)))) = 15 / 100000"
    by code_simp
  show ?thesis
    using h a b llm_node_cost_estimate [OF h] by simp
qed

text \<open>
  With \<open>gpt-4o\<close> configured, 1000 tokens add 0.00015 to the estimate, which is not 1000
  tokens at the price the configured table gives for that model, per token or per
  thousand tokens.
\<close>

theorem llm_node_cost_counterexample:
  "configured_price (settings env_gpt4o) ''input'' = Some (25 / 10000) \<and>
   configured_price (settings env_gpt4o) ''output'' = Some (1 / 100) \<and>
   status (processing_control (snd (llm_node env_gpt4o (world0, ready_state0)))) = ''COMPLETED'' \<and>
   tokens_used (metrics (snd (llm_node env_gpt4o (world0, ready_state0))))
     - tokens_used (metrics ready_state0) = 1000 \<and>
   cost_estimate (metrics (snd (llm_node env_gpt4o (world0, ready_state0))))
     - cost_estimate (metrics ready_state0) = 15 / 100000 \<and>
   (15 / 100000 :: rat) \<noteq> 1000 / 1000 * (25 / 10000) \<and>
   (15 / 100000 :: rat) \<noteq> 1000 * (25 / 10000) \<and>
   (15 / 100000 :: rat) \<noteq> 1000 / 1000 * (1 / 100) \<and>
   (15 / 100000 :: rat) \<noteq> 1000 * (1 / 100) \<and>
   processing_time (metrics (snd (llm_node env_gpt4o (world0, ready_state0))))
     = processing_time (metrics ready_state0)"
  by code_simp

section \<open>Post-processing of the LLM answer\<close>

text \<open>
  C7, as amended. Take a run of \<open>llm_node\<close> that reaches the answer of the LLM. The
  answer is trimmed; the seven characters \<open>```json\<close> are removed from its start if it
  starts with them, and then \<open>```\<close> from its end if it ends with it (a text with
  neither is left alone); what is left is trimmed again and given to the JSON parser.
  A mapping makes the stage complete with that mapping as extracted data; in particular
  an answer fenced as \<open>```json ... ```\<close>, with any whitespace around it, whose inside
  parses to a mapping does. A parsed value that is no mapping makes the stage fail with
  a recorded error and leaves the extracted data untouched.
\<close>

theorem llm_response_post_processing:
  assumes "status (processing_control state) \<noteq> ''FAILED''" and "OpenAI_init e = None"
    and "raw_text (processing_data state) = Some t" and "t \<noteq> []"
    and "chat_completions_create e
           \<lparr>req_model = Settings.llm_model (settings e),
            req_system = EXTRACTION_SYSTEM_PROMPT, req_user = EXTRACTION_USER_PROMPT t,
            req_max_tokens = 1500, req_temperature = llm_temperature (settings e),
            req_top_p = 9 / 10\<rparr> = Inr response"
    and "choices_content response = Some raw # rest"
  shows
    "(\<forall>body. clean_json_format (''```json'' @ body @ ''```'') = body) \<and>
     (\<forall>body. \<not> endswith body ''```'' \<longrightarrow> clean_json_format (''```json'' @ body) = body) \<and>
     (\<forall>body. \<not> startswith (body @ ''```'') ''```json'' \<longrightarrow>
        clean_json_format (body @ ''```'') = body) \<and>
     (\<forall>c. \<not> startswith c ''```json'' \<longrightarrow> \<not> endswith c ''```'' \<longrightarrow> clean_json_format c = c) \<and>
     (\<forall>d. json_loads e (strip (clean_json_format (strip raw))) = Inr (JObject d) \<longrightarrow>
        status (processing_control (snd (llm_node e (w, state)))) = ''COMPLETED'' \<and>
        extracted_data (snd (llm_node e (w, state))) = d) \<and>
     (\<forall>lead body trail d.
        raw = lead @ ''```json'' @ body @ ''```'' @ trail \<longrightarrow>
        (\<forall>c\<in>set (lead @ trail). isspace c) \<longrightarrow>
        json_loads e (strip body) = Inr (JObject d) \<longrightarrow>
        status (processing_control (snd (llm_node e (w, state)))) = ''COMPLETED'' \<and>
        extracted_data (snd (llm_node e (w, state))) = d) \<and>
     (\<forall>v. json_loads e (strip (clean_json_format (strip raw))) = Inr v \<longrightarrow>
        (\<forall>d. v \<noteq> JObject d) \<longrightarrow>
        status (processing_control (snd (llm_node e (w, state)))) = ''FAILED'' \<and>
        extracted_data (snd (llm_node e (w, state))) = extracted_data state \<and>
        errors (logging (snd (llm_node e (w, state)))) =
          errors (logging state) @
            [''['' @ strftime_HMS e (Suc (clock_reads w)) @ ''] Error en extracci'' @ [CHR 0xF3]
               @ ''n LLM: Respuesta de OpenAI no es un objeto JSON v'' @ [CHR 0xE1] @ ''lido''])"
proof -
  let ?w1 = "w\<lparr>clock_reads := Suc (clock_reads w)\<rparr>"
  let ?s1 = "snd (update_stage e ''llm_processing'' (w, state))"
  have us: "update_stage e ''llm_processing'' (w, state) = (?w1, ?s1)"
    by (simp add: update_stage_eq)
  have rt: "raw_text (processing_data ?s1) = Some t"
    using assms(3) by (simp add: update_stage_eq)
  have node: "llm_node e (w, state) =
     (case llm_try e (?w1, ?s1) of
        Inr ws2 \<Rightarrow> ws2
      | Inl (ex, w2) \<Rightarrow>
          add_error e (''Error en extracci'' @ [CHR 0xF3] @ ''n LLM: '' @ str_e ex) (w2, ?s1))"
    using llm_node_run [OF assms(1,2), of w] us by simp
  have ok: "status (processing_control (snd (llm_node e (w, state)))) = ''COMPLETED'' \<and>
            extracted_data (snd (llm_node e (w, state))) = d"
    if "json_loads e (strip (clean_json_format (strip raw))) = Inr (JObject d)" for d
  proof -
    have "llm_try e (?w1, ?s1) =
        Inr (llm_success e (case usage_total_tokens response of Some n \<Rightarrow> n | None \<Rightarrow> 0)
               (clean_json_format (strip raw)) EXTRACTION_SYSTEM_PROMPT (EXTRACTION_USER_PROMPT t) d
               (?w1\<lparr>llm_calls := Suc (llm_calls ?w1)\<rparr>, ?s1))"
      using rt assms(4,5,6) that
      by (simp add: llm_try_def generate_extraction_prompts_def Let_def)
    then show ?thesis
      using node by (simp add: llm_success_extracted)
  qed
  have bad: "status (processing_control (snd (llm_node e (w, state)))) = ''FAILED'' \<and>
        extracted_data (snd (llm_node e (w, state))) = extracted_data state \<and>
        errors (logging (snd (llm_node e (w, state)))) =
          errors (logging state) @
            [''['' @ strftime_HMS e (Suc (clock_reads w)) @ ''] Error en extracci'' @ [CHR 0xF3]
               @ ''n LLM: Respuesta de OpenAI no es un objeto JSON v'' @ [CHR 0xE1] @ ''lido'']"
    if "json_loads e (strip (clean_json_format (strip raw))) = Inr v" "\<forall>d. v \<noteq> JObject d" for v
  proof -
    have "llm_try e (?w1, ?s1) =
        Inl (Exception ''ValueError''
               (''Respuesta de OpenAI no es un objeto JSON v'' @ [CHR 0xE1] @ ''lido''),
             ?w1\<lparr>llm_calls := Suc (llm_calls ?w1)\<rparr>)"
      using rt assms(4,5,6) that
      by (cases v) (simp_all add: llm_try_def generate_extraction_prompts_def Let_def)
    then show ?thesis
      using node by (simp add: add_error_eq update_stage_eq)
  qed
  have fenced: "status (processing_control (snd (llm_node e (w, state)))) = ''COMPLETED'' \<and>
        extracted_data (snd (llm_node e (w, state))) = d"
    if "raw = lead @ ''```json'' @ body @ ''```'' @ trail" "\<forall>c\<in>set (lead @ trail). isspace c"
       "json_loads e (strip body) = Inr (JObject d)" for lead body trail d
  proof -
    have "strip raw = ''```json'' @ body @ ''```''"
      using that(1) strip_fenced [OF that(2)] by simp
    then have "clean_json_format (strip raw) = body"
      using clean_fenced [of body] by simp
    with that(3) show ?thesis using ok by simp
  qed
  show ?thesis
    using ok bad fenced clean_fenced clean_leading clean_trailing clean_none by blast
qed

theorem llm_response_post_processing_witness:
  \<open>llm_answer0 = [] @ ''```json'' @ ''{"nombres": "ANA"}'' @ ''```'' @ [] \<and>
   status (processing_control (snd (llm_node env0 (world0, ready_state0)))) = ''COMPLETED'' \<and>
   extracted_data (snd (llm_node env0 (world0, ready_state0))) = [(''nombres'', JString ''ANA'')] \<and>
   clean_json_format (''```json'' @ ''{}'') = ''{}'' \<and>
   clean_json_format (''{}'' @ ''```'') = ''{}'' \<and>
   clean_json_format ''{}'' = ''{}'' \<and>
   json_loads env_list (strip (clean_json_format (strip ''[1, 2]''))) = Inr (JArray [JInt 1, JInt 2]) \<and>
   status (processing_control (snd (llm_node env_list (world0, ready_state0)))) = ''FAILED'' \<and>
   extracted_data (snd (llm_node env_list (world0, ready_state0))) = extracted_data ready_state0 \<and>
   errors (logging (snd (llm_node env_list (world0, ready_state0)))) =
     errors (logging ready_state0) @
       [''['' @ strftime_HMS env_list (Suc (clock_reads world0)) @ ''] Error en extracci'' @ [CHR 0xF3]
          @ ''n LLM: Respuesta de OpenAI no es un objeto JSON v'' @ [CHR 0xE1] @ ''lido'']\<close>
proof -
  have s: "status (processing_control ready_state0) \<noteq> ''FAILED''"
    by code_simp
  have r: "raw_text (processing_data ready_state0) = Some ''NOMBRES ANA''"
    by (simp add: ready_state0_def)
  have n: "''NOMBRES ANA'' \<noteq> []"
    by simp
  \<comment> \<open>the fenced mapping\<close>
  have i0: "OpenAI_init env0 = None"
    by (simp add: env0_def)
  have c0: "chat_completions_create env0
        \<lparr>req_model = Settings.llm_model (settings env0),
         req_system = EXTRACTION_SYSTEM_PROMPT, req_user = EXTRACTION_USER_PROMPT ''NOMBRES ANA'',
         req_max_tokens = 1500, req_temperature = llm_temperature (settings env0),
         req_top_p = 9 / 10\<rparr> = Inr \<lparr>usage_total_tokens = Some 1000, choices_content = [Some llm_answer0]\<rparr>"
    by (simp add: env0_def)
  have ch0: "choices_content \<lparr>usage_total_tokens = Some 1000, choices_content = [Some llm_answer0]\<rparr>
        = Some llm_answer0 # []"
    by simp
  have raw0: \<open>llm_answer0 = [] @ ''```json'' @ ''{"nombres": "ANA"}'' @ ''```'' @ []\<close>
    by (simp add: llm_answer0_def)
  have sp0: "\<forall>c\<in>set ([] @ [] :: string). isspace c"
    by simp
  have js0: \<open>json_loads env0 (strip ''{"nombres": "ANA"}'') = Inr (JObject [(''nombres'', JString ''ANA'')])\<close>
    by code_simp
  have A: "status (processing_control (snd (llm_node env0 (world0, ready_state0)))) = ''COMPLETED'' \<and>
     extracted_data (snd (llm_node env0 (world0, ready_state0))) = [(''nombres'', JString ''ANA'')]"
    using llm_response_post_processing [OF s i0 r n c0 ch0, of world0] raw0 sp0 js0 by blast
  have f1: "\<not> endswith ''{}'' ''```''"
    by code_simp
  have f2: "\<not> startswith (''{}'' @ ''```'') ''```json''"
    by code_simp
  have f3: "\<not> startswith ''{}'' ''```json''"
    by code_simp
  have C: "clean_json_format (''```json'' @ ''{}'') = ''{}'' \<and>
           clean_json_format (''{}'' @ ''```'') = ''{}'' \<and>
           clean_json_format ''{}'' = ''{}''"
    using llm_response_post_processing [OF s i0 r n c0 ch0, of world0] f1 f2 f3 by blast
  \<comment> \<open>the answer that is a list\<close>
  have i1: "OpenAI_init env_list = None"
    by (simp add: env_list_def env0_def)
  have c1: "chat_completions_create env_list
        \<lparr>req_model = Settings.llm_model (settings env_list),
         req_system = EXTRACTION_SYSTEM_PROMPT, req_user = EXTRACTION_USER_PROMPT ''NOMBRES ANA'',
         req_max_tokens = 1500, req_temperature = llm_temperature (settings env_list),
         req_top_p = 9 / 10\<rparr> = Inr \<lparr>usage_total_tokens = Some 1000, choices_content = [Some ''[1, 2]'']\<rparr>"
    by (simp add: env_list_def)
  have ch1: "choices_content \<lparr>usage_total_tokens = Some 1000, choices_content = [Some ''[1, 2]'']\<rparr>
        = Some ''[1, 2]'' # []"
    by simp
  have js1: "json_loads env_list (strip (clean_json_format (strip ''[1, 2]''))) = Inr (JArray [JInt 1, JInt 2])"
    by code_simp
  have no: "\<forall>d. JArray [JInt 1, JInt 2] \<noteq> JObject d"
    by simp
  have B: "status (processing_control (snd (llm_node env_list (world0, ready_state0)))) = ''FAILED'' \<and>
     extracted_data (snd (llm_node env_list (world0, ready_state0))) = extracted_data ready_state0 \<and>
     errors (logging (snd (llm_node env_list (world0, ready_state0)))) =
       errors (logging ready_state0) @
         [''['' @ strftime_HMS env_list (Suc (clock_reads world0)) @ ''] Error en extracci'' @ [CHR 0xF3]
            @ ''n LLM: Respuesta de OpenAI no es un objeto JSON v'' @ [CHR 0xE1] @ ''lido'']"
    using llm_response_post_processing [OF s i1 r n c1 ch1, of world0] js1 no by blast
  show ?thesis
    using raw0 A C js1 B by simp
qed

text \<open>
  An opening fence without the \<open>json\<close> tag is a leading code-fence marker that is not
  removed: only the closing fence goes, the parser is given text that still starts with
  the fence, and the stage fails although the fenced text is a mapping.
\<close>

theorem llm_leading_fence_counterexample:
  \<open>json_loads env_bare_fence ''{"nombres": "ANA"}'' = Inr (JObject [(''nombres'', JString ''ANA'')]) \<and>
   startswith (strip bare_answer) ''```'' \<and>
   clean_json_format (strip bare_answer) = ''```{"nombres": "ANA"}'' \<and>
   status (processing_control (snd (llm_node env_bare_fence (world0, ready_state0)))) = ''FAILED''\<close>
  by code_simp

section \<open>A failed status stays failed\<close>

text \<open>
  C3, as amended. Once the status is \<open>FAILED\<close> it stays \<open>FAILED\<close>: Stage A, Stage B,
  the two in sequence and every method of the state return a state whose status is
  \<open>FAILED\<close> when given one. Stage B checks the flag first and returns the world and
  the state untouched; and whenever Stage A ends in \<open>FAILED\<close>, the pipeline ends in
  exactly the state Stage A returned. Stage A itself, the entry point of the graph,
  does not look at the flag.
\<close>

theorem failed_status_is_kept:
  assumes "status (processing_control state) = ''FAILED''"
  shows "status (processing_control (snd (image_processing_node e (w, state)))) = ''FAILED'' \<and>
         llm_node e (w, state) = (w, state) \<and>
         status (processing_control (snd (graph_ainvoke e (w, state)))) = ''FAILED'' \<and>
         status (processing_control (snd (add_message e m (w, state)))) = ''FAILED'' \<and>
         status (processing_control (snd (update_stage e m (w, state)))) = ''FAILED'' \<and>
         status (processing_control (snd (add_warning e m (w, state)))) = ''FAILED'' \<and>
         status (processing_control (snd (add_error e m (w, state)))) = ''FAILED'' \<and>
         status (processing_control (update_metrics n d state)) = ''FAILED'' \<and>
         (\<forall>s. status (processing_control (snd (image_processing_node e (w, s)))) = ''FAILED'' \<longrightarrow>
               graph_ainvoke e (w, s) = image_processing_node e (w, s))"
proof -
  have a: "status (processing_control (snd (image_processing_node e (w, state)))) = ''FAILED''"
    using image_processing_node_status [of e w state] assms by auto
  have b: "llm_node e ws = ws" if "status (processing_control (snd ws)) = ''FAILED''" for ws
    using that by (cases ws) (simp add: llm_node_def)
  have c: "graph_ainvoke e (w, s) = image_processing_node e (w, s)"
    if "status (processing_control (snd (image_processing_node e (w, s)))) = ''FAILED''" for s
    using b [OF that] by (simp add: graph_ainvoke_def)
  show ?thesis
    using a b [of "(w, state)"] c assms by simp
qed

theorem failed_status_is_kept_witness:
  "status (processing_control failed_state0) = ''FAILED'' \<and>
   status (processing_control (snd (image_processing_node env0 (world0, failed_state0)))) = ''FAILED'' \<and>
   llm_node env0 (world0, failed_state0) = (world0, failed_state0) \<and>
   status (processing_control (snd (graph_ainvoke env0 (world0, failed_state0)))) = ''FAILED'' \<and>
   status (processing_control state0) = ''PROCESSING'' \<and>
   status (processing_control (snd (image_processing_node env_blank (world0, state0)))) = ''FAILED'' \<and>
   graph_ainvoke env_blank (world0, state0) = image_processing_node env_blank (world0, state0)"
proof -
  have h: "status (processing_control failed_state0) = ''FAILED''"
    by (simp add: failed_state0_def)
  have p: "status (processing_control state0) = ''PROCESSING''"
    by code_simp
  have b: "status (processing_control (snd (image_processing_node env_blank (world0, state0)))) = ''FAILED''"
    by code_simp
  have g: "graph_ainvoke env_blank (world0, state0) = image_processing_node env_blank (world0, state0)"
    using failed_status_is_kept [OF h, of env_blank world0] b by blast
  show ?thesis
    using h p b g failed_status_is_kept [OF h, of env0 world0] by simp
qed

text \<open>
  Stage A given a failed state is no no-op: it enters its stage, calls the OCR
  collaborator and stores the text.
\<close>

theorem image_node_ignores_failed_flag:
  "status (processing_control failed_state0) = ''FAILED'' \<and>
   vision_calls world0 = 0 \<and>
   vision_calls (fst (image_processing_node env0 (world0, failed_state0))) = 1 \<and>
   processing_stage (processing_control failed_state0) = ''ingestion'' \<and>
   processing_stage (processing_control (snd (image_processing_node env0 (world0, failed_state0))))
     = ''ImageProcessing'' \<and>
   raw_text (processing_data failed_state0) = None \<and>
   raw_text (processing_data (snd (image_processing_node env0 (world0, failed_state0))))
     = Some ''NOMBRES ANA'' \<and>
   length (messages (logging failed_state0)) = 0 \<and>
   length (messages (logging (snd (image_processing_node env0 (world0, failed_state0))))) = 3"
  by code_simp

section \<open>What Stage A captures\<close>

text \<open>
  C8, as amended. On every run of Stage A that does not end in \<open>FAILED\<close>, the file was
  read, the OCR collaborator was called once and answered with an annotation whose
  trimmed text is not empty, and the state holds that trimmed text as raw text. The OCR
  confidence of the state is the one it came in with: the node calls the text-only entry
  point and never writes the field.
\<close>

theorem image_node_success:
  assumes "status (processing_control (snd (image_processing_node e (w, state)))) \<noteq> ''FAILED''"
  shows "\<exists>bs response a.
           files w (file_path (document_info state)) = Some bs \<and>
           document_text_detection e bs = Inr response \<and>
           full_text_annotation response = Some a \<and>
           strip (annotation_text a) \<noteq> [] \<and>
           raw_text (processing_data (snd (image_processing_node e (w, state))))
             = Some (strip (annotation_text a)) \<and>
           vision_calls (fst (image_processing_node e (w, state))) = Suc (vision_calls w) \<and>
           ocr_confidence (processing_data (snd (image_processing_node e (w, state))))
             = ocr_confidence (processing_data state)"
proof -
  let ?w2 = "w\<lparr>clock_reads := Suc (Suc (clock_reads w))\<rparr>"
  let ?fp = "file_path (document_info state)"
  obtain mb t0 s3 where
    n: "image_processing_node e (w, state) =
          image_ocr_step e ?fp mb t0 (?w2\<lparr>clock_reads := Suc (clock_reads ?w2)\<rparr>, s3)"
    using assms
    by (auto simp: image_processing_node_def Let_def update_stage_eq read_time_eq add_message_eq
          split: prod.splits sum.splits if_splits)
  from assms n have "status (processing_control (snd (image_ocr_step e ?fp mb t0
          (?w2\<lparr>clock_reads := Suc (clock_reads ?w2)\<rparr>, s3)))) \<noteq> ''FAILED''"
    by simp
  from image_ocr_step_success [OF this] n image_processing_node_frame [of e w state]
  show ?thesis by auto
qed

theorem image_node_success_witness:
  "status (processing_control (snd (image_processing_node env0 (world0, state0)))) \<noteq> ''FAILED'' \<and>
   (\<exists>bs response a.
           files world0 (file_path (document_info state0)) = Some bs \<and>
           document_text_detection env0 bs = Inr response \<and>
           full_text_annotation response = Some a \<and>
           strip (annotation_text a) \<noteq> [] \<and>
           raw_text (processing_data (snd (image_processing_node env0 (world0, state0))))
             = Some (strip (annotation_text a)) \<and>
           vision_calls (fst (image_processing_node env0 (world0, state0))) = Suc (vision_calls world0) \<and>
           ocr_confidence (processing_data (snd (image_processing_node env0 (world0, state0))))
             = ocr_confidence (processing_data state0))"
proof -
  have h: "status (processing_control (snd (image_processing_node env0 (world0, state0)))) \<noteq> ''FAILED''"
    by code_simp
  show ?thesis
    using h image_node_success [OF h] by simp
qed

text \<open>
  A successful run whose OCR answer carries a word confidence of 0.98 leaves the
  confidence of the state at its default 0.
\<close>

theorem image_node_confidence_counterexample:
  "document_text_detection env0 [0x89, 0x50, 0x4e, 0x47, 0x0d, 0x0a] =
     Inr \<lparr>error_message = [],
          full_text_annotation =
            Some \<lparr>annotation_text = ''NOMBRES ANA'', word_confidences = [98 / 100]\<rparr>\<rparr> \<and>
   status (processing_control (snd (image_processing_node env0 (world0, state0)))) = ''PROCESSING'' \<and>
   raw_text (processing_data (snd (image_processing_node env0 (world0, state0)))) = Some ''NOMBRES ANA'' \<and>
   ocr_confidence ProcessingData_default = 0 \<and>
   ocr_confidence (processing_data (snd (image_processing_node env0 (world0, state0)))) = 0"
  by code_simp

section \<open>Blank OCR text fails the job\<close>

text \<open>
  C4. Take a background run for a stored job in which Stage A reaches the OCR
  collaborator (the checks of the API, the image library, the file, its extension and its
  size pass) and the collaborator answers with empty or whitespace-only text. Then the
  pipeline returns normally with a failure result, nothing is raised, the job record is
  \<open>FAILED\<close> with the error message that no text was detected in the image, the OCR
  collaborator was called once and the LLM collaborator not at all.
\<close>

theorem blank_ocr_text_fails_job:
  assumes "map_of store jid = Some j"
    and "VISION_AVAILABLE e" and "GOOGLE_APPLICATION_CREDENTIALS e = Some cred" and "cred \<noteq> []"
    and "PIL_AVAILABLE e"
    and "files w fp = Some bs"
    and "is_image_file fp"
    and "length bs \<le> max_image_size_mb (settings e) * 1048576"
    and "document_text_detection e bs = Inr response" and "error_message response = []"
    and "strip (case full_text_annotation response of None \<Rightarrow> [] | Some a \<Rightarrow> annotation_text a) = []"
  shows "\<exists>r w1 w' store' j'.
           Pipeline_process e fp fname (w\<lparr>clock_reads := Suc (clock_reads w)\<rparr>) = (Inr (Some r), w1) \<and>
           res_status r = ''FAILED'' \<and>
           process_file_background (Pipeline_process e) e jid fp fname (w, store) = (None, w', store') \<and>
           llm_calls w' = llm_calls w \<and>
           vision_calls w' = Suc (vision_calls w) \<and>
           map_of store' jid = Some j' \<and>
           job_status j' = FAILED \<and>
           job_error j' = Some (''['' @ strftime_HMS e (clock_reads w + 4)
                                  @ ''] No se detect'' @ [CHR 0xF3] @ '' texto en la imagen'')"
proof -
  let ?w0 = "w\<lparr>clock_reads := Suc (clock_reads w)\<rparr>"
  have f: "files ?w0 fp = Some bs"
    using assms(6) by simp
  from Pipeline_process_blank [OF assms(2-5) f assms(7-11), of fname]
  obtain r w1 where
    p: "Pipeline_process e fp fname ?w0 = (Inr (Some r), w1)" and
    r: "res_status r = ''FAILED''"
       "res_error_details r = Some
             \<lparr>ed_errors = [''['' @ strftime_HMS e (Suc (Suc (Suc (clock_reads ?w0))))
                               @ ''] No se detect'' @ [CHR 0xF3] @ '' texto en la imagen''],
              ed_warnings = [], last_stage = ''ImageProcessing''\<rparr>" and
    w1: "llm_calls w1 = llm_calls ?w0" "vision_calls w1 = Suc (vision_calls ?w0)"
    by blast
  have c4: "Suc (Suc (Suc (Suc (clock_reads w)))) = clock_reads w + 4"
    by simp
  note b = process_file_background_present
    [where pl = "Pipeline_process e" and e = e and fp = fp and fname = fname, OF assms(1) p]
  show ?thesis
    using p r w1 c4
    by (simp add: b Let_def update_conv' cleanup_file_def FAILED_def)
qed

theorem blank_ocr_text_fails_job_witness:
  "map_of store0 ''job-0'' = Some job0 \<and>
   files world0 ''temp/upload_hex1_dni.png'' = Some [0x89, 0x50, 0x4e, 0x47, 0x0d, 0x0a] \<and>
   document_text_detection env_blank [0x89, 0x50, 0x4e, 0x47, 0x0d, 0x0a] = Inr blank_response \<and>
   strip (case full_text_annotation blank_response of None \<Rightarrow> [] | Some a \<Rightarrow> annotation_text a) = [] \<and>
   (\<exists>r w1 w' store' j'.
           Pipeline_process env_blank ''temp/upload_hex1_dni.png'' ''dni.png''
             (world0\<lparr>clock_reads := Suc (clock_reads world0)\<rparr>) = (Inr (Some r), w1) \<and>
           res_status r = ''FAILED'' \<and>
           process_file_background (Pipeline_process env_blank) env_blank ''job-0''
             ''temp/upload_hex1_dni.png'' ''dni.png'' (world0, store0) = (None, w', store') \<and>
           llm_calls w' = llm_calls world0 \<and>
           vision_calls w' = Suc (vision_calls world0) \<and>
           map_of store' ''job-0'' = Some j' \<and>
           job_status j' = FAILED \<and>
           job_error j' = Some (''['' @ strftime_HMS env_blank (clock_reads world0 + 4)
                                  @ ''] No se detect'' @ [CHR 0xF3] @ '' texto en la imagen''))"
proof -
  have 1: "map_of store0 ''job-0'' = Some job0"
    by (simp add: store0_def)
  have 2: "VISION_AVAILABLE env_blank"
    by (simp add: env_blank_def env0_def)
  have 3: "GOOGLE_APPLICATION_CREDENTIALS env_blank = Some ''/tmp/credentials.json''"
    by (simp add: env_blank_def env0_def)
  have 4: "''/tmp/credentials.json'' \<noteq> []"
    by simp
  have 5: "PIL_AVAILABLE env_blank"
    by (simp add: env_blank_def env0_def)
  have 6: "files world0 ''temp/upload_hex1_dni.png'' = Some [0x89, 0x50, 0x4e, 0x47, 0x0d, 0x0a]"
    by (simp add: world0_def)
  have 7: "is_image_file ''temp/upload_hex1_dni.png''"
    by code_simp
  have 8: "length [0x89, 0x50, 0x4e, 0x47, 0x0d, 0x0a :: byte]
             \<le> max_image_size_mb (settings env_blank) * 1048576"
    by (simp add: env_blank_def env0_def settings0_def)
  have 9: "document_text_detection env_blank [0x89, 0x50, 0x4e, 0x47, 0x0d, 0x0a] = Inr blank_response"
    by (simp add: env_blank_def)
  have 10: "error_message blank_response = []"
    by (simp add: blank_response_def)
  have 11: "strip (case full_text_annotation blank_response of None \<Rightarrow> []
                   | Some a \<Rightarrow> annotation_text a) = []"
    by code_simp
  show ?thesis
    using 1 6 9 11
      blank_ocr_text_fails_job [OF 1 2 3 4 5 6 7 8 9 10 11, of "''dni.png''"]
    by simp
qed

section \<open>The background task always ends the job\<close>



section \<open>The extracted data of a completed job\<close>

text \<open>
  C1, as amended. For every job that a background run leaves \<open>COMPLETED\<close>, the keys
  of the extracted data of the stored result are the keys of the mapping the JSON parser
  returned for the post-processed LLM answer, whatever they are, together with the key
  \<open>texto_extraido\<close>, which is not one of the seven fields of the prompt. Nothing is
  said here about the value stored under \<open>texto_extraido\<close>.
\<close>

theorem completed_job_extracted_data:
  assumes "process_file_background (Pipeline_process e) e jid fp fname (w, store) = (raised, w', store')"
    and "map_of store' jid = Some j'"
    and "job_status j' = COMPLETED"
  shows "\<exists>r t response raw rest d.
           job_result j' = Some r \<and>
           chat_completions_create e
             \<lparr>req_model = Settings.llm_model (settings e),
              req_system = EXTRACTION_SYSTEM_PROMPT, req_user = EXTRACTION_USER_PROMPT t,
              req_max_tokens = 1500, req_temperature = llm_temperature (settings e),
              req_top_p = 9 / 10\<rparr> = Inr response \<and>
           choices_content response = Some raw # rest \<and>
           json_loads e (strip (clean_json_format (strip raw))) = Inr (JObject d) \<and>
           fst ` set (enh_extracted_data r) = insert ''texto_extraido'' (fst ` set d) \<and>
           ''texto_extraido'' \<notin> recognized_fields"
proof (cases "map_of store jid")
  case None
  with assms process_file_background_absent [OF None, of "Pipeline_process e" e fp fname w]
  show ?thesis by auto
next
  case (Some j)
  obtain out w2 where
    p: "Pipeline_process e fp fname (w\<lparr>clock_reads := Suc (clock_reads w)\<rparr>) = (out, w2)"
    by (cases "Pipeline_process e fp fname (w\<lparr>clock_reads := Suc (clock_reads w)\<rparr>)")
  from Pipeline_process_result [OF p] obtain r where
    o: "out = Inr (Some r)" and
    s: "res_status r \<noteq> ''FAILED'' \<longrightarrow>
              (\<exists>t response raw rest d.
                 chat_completions_create e
                   \<lparr>req_model = Settings.llm_model (settings e),
                    req_system = EXTRACTION_SYSTEM_PROMPT, req_user = EXTRACTION_USER_PROMPT t,
                    req_max_tokens = 1500, req_temperature = llm_temperature (settings e),
                    req_top_p = 9 / 10\<rparr> = Inr response \<and>
                 choices_content response = Some raw # rest \<and>
                 json_loads e (strip (clean_json_format (strip raw))) = Inr (JObject d) \<and>
                 res_extracted_data r = Some d)"
    by blast
  note b = process_file_background_present
    [where pl = "Pipeline_process e" and e = e and fp = fp and fname = fname, OF Some p]
  have nf: "res_status r \<noteq> ''FAILED''"
    using assms b o status_constants by (auto simp: update_conv' Let_def split: if_splits)
  have jr: "job_result j' = Some (make_enhanced_result r)"
    using assms b o nf by (auto simp: update_conv' Let_def)
  from s nf obtain t response raw rest d where
    c: "chat_completions_create e
                   \<lparr>req_model = Settings.llm_model (settings e),
                    req_system = EXTRACTION_SYSTEM_PROMPT, req_user = EXTRACTION_USER_PROMPT t,
                    req_max_tokens = 1500, req_temperature = llm_temperature (settings e),
                    req_top_p = 9 / 10\<rparr> = Inr response" and
    ch: "choices_content response = Some raw # rest" and
    js: "json_loads e (strip (clean_json_format (strip raw))) = Inr (JObject d)" and
    x: "res_extracted_data r = Some d"
    by blast
  have e1: "fst ` set (enh_extracted_data (make_enhanced_result r))
              = insert ''texto_extraido'' (fst ` set d)"
    using x by (simp add: make_enhanced_result_def dom_update)
  have e3: "''texto_extraido'' \<notin> recognized_fields"
    by (simp add: recognized_fields_def)
  show ?thesis
    using jr c ch js e1 e3 by auto
qed

theorem completed_job_extracted_data_witness:
  "map_of completed_store0 ''job-0'' = Some (the (map_of completed_store0 ''job-0'')) \<and>
   job_status (the (map_of completed_store0 ''job-0'')) = COMPLETED \<and>
   (\<exists>r t response raw rest d.
           job_result (the (map_of completed_store0 ''job-0'')) = Some r \<and>
           chat_completions_create env0
             \<lparr>req_model = Settings.llm_model (settings env0),
              req_system = EXTRACTION_SYSTEM_PROMPT, req_user = EXTRACTION_USER_PROMPT t,
              req_max_tokens = 1500, req_temperature = llm_temperature (settings env0),
              req_top_p = 9 / 10\<rparr> = Inr response \<and>
           choices_content response = Some raw # rest \<and>
           json_loads env0 (strip (clean_json_format (strip raw))) = Inr (JObject d) \<and>
           fst ` set (enh_extracted_data r) = insert ''texto_extraido'' (fst ` set d) \<and>
           ''texto_extraido'' \<notin> recognized_fields)"
proof -
  let ?run = "process_file_background (Pipeline_process env0) env0 ''job-0''
                 ''temp/upload_hex1_dni.png'' ''dni.png'' (world0, store0)"
  have r: "?run = (fst ?run, fst (snd ?run), completed_store0)"
    by (simp add: completed_store0_def)
  have n: "map_of completed_store0 ''job-0'' \<noteq> None"
    by code_simp
  then have m: "map_of completed_store0 ''job-0'' = Some (the (map_of completed_store0 ''job-0''))"
    by simp
  have s: "job_status (the (map_of completed_store0 ''job-0'')) = COMPLETED"
    by code_simp
  show ?thesis
    using m s completed_job_extracted_data [OF r m s] by simp
qed

text \<open>
  A run in which the LLM answers with the single recognized field \<open>nombres\<close>: the
  completed job exposes the keys \<open>nombres\<close> and \<open>texto_extraido\<close>.
\<close>

theorem completed_job_keys_counterexample:
  "map_of completed_store0 ''job-0'' \<noteq> None \<and>
   job_status (the (map_of completed_store0 ''job-0'')) = COMPLETED \<and>
   map fst (enh_extracted_data (the (job_result (the (map_of completed_store0 ''job-0'')))))
     = [''nombres'', ''texto_extraido''] \<and>
   ''nombres'' \<in> recognized_fields \<and>
   ''texto_extraido'' \<notin> recognized_fields \<and>
   \<not> fst ` set (enh_extracted_data (the (job_result (the (map_of completed_store0 ''job-0'')))))
       \<subseteq> recognized_fields"
  by code_simp

section \<open>The invariant of the job store\<close>

text \<open>
  C10. In a store where every \<open>COMPLETED\<close> or \<open>FAILED\<close> record has a completion
  time and every \<open>FAILED\<close> record an error message, every operation (an upload, a
  background run with any pipeline, a deletion, a query) and every sequence of operations
  leaves a store of that kind; the empty store is one. In such a store neither the status
  query nor the list query raises for a missing key.
\<close>

theorem job_store_invariant:
  assumes "store_invariant store"
  shows "store_invariant (snd (apply_operation pl e op (w, store))) \<and>
         store_invariant (snd (run_operations pl e ops (w, store))) \<and>
         (\<forall>jid j. map_of store jid = Some j \<longrightarrow>
            (job_status j = COMPLETED \<or> job_status j = FAILED \<longrightarrow> completed_at j \<noteq> None) \<and>
            (job_status j = FAILED \<longrightarrow> job_error j \<noteq> None)) \<and>
         (\<forall>jid ex. get_job_status store jid \<noteq> Raises ex) \<and>
         (\<forall>limit ex. list_jobs store limit \<noteq> Raises ex)"
proof -
  have "terminal_fields_present j" if "map_of store jid = Some j" for jid j
    using store_invariant_lookup [OF assms that] .
  then show ?thesis
    using apply_operation_invariant [of "(w, store)" pl e op]
      run_operations_invariant [of "(w, store)" pl e ops]
      get_job_status_no_raise [OF assms] list_jobs_no_raise [OF assms] assms
    by (auto simp: terminal_fields_present_def)
qed

theorem job_store_invariant_witness:
  "store_invariant [] \<and>
   store_invariant failed_store0 \<and>
   map_of failed_store0 ''job-0'' = Some (the (map_of failed_store0 ''job-0'')) \<and>
   job_status (the (map_of failed_store0 ''job-0'')) = FAILED \<and>
   completed_at (the (map_of failed_store0 ''job-0'')) \<noteq> None \<and>
   job_error (the (map_of failed_store0 ''job-0'')) \<noteq> None \<and>
   get_job_status failed_store0 ''job-0'' \<noteq> Raises (Exception ''KeyError'' (py_repr ''completed_at'')) \<and>
   get_job_status failed_store0 ''job-0'' \<noteq> Raises (Exception ''KeyError'' (py_repr ''error'')) \<and>
   list_jobs failed_store0 10 \<noteq> Raises (Exception ''KeyError'' (py_repr ''completed_at''))"
proof -
  have e: "store_invariant []"
    by (simp add: store_invariant_def)
  have i: "store_invariant failed_store0"
    unfolding failed_store0_def
    using job_store_invariant [OF e, of "Pipeline_process env_blank" env_blank _ empty_world session0]
    by blast
  have n: "map_of failed_store0 ''job-0'' \<noteq> None"
    by code_simp
  then have m: "map_of failed_store0 ''job-0'' = Some (the (map_of failed_store0 ''job-0''))"
    by simp
  have s: "job_status (the (map_of failed_store0 ''job-0'')) = FAILED"
    by code_simp
  show ?thesis
    using e i m s job_store_invariant [OF i] by blast
qed

section \<open>Magic bytes against the extension\<close>



end
